theory Spec2Isabelle
  imports Complex_Main
begin

section \<open>JavaScript numbers\<close>

text \<open>
  The engine is JavaScript; every quantity is a \<^verbatim>\<open>Number\<close>. The model keeps the
  special values of IEEE 754 that decide control flow (\<^verbatim>\<open>NaN\<close>, \<^verbatim>\<open>Infinity\<close>,
  \<^verbatim>\<open>-Infinity\<close>) and takes every finite value as an exact real: rounding, overflow
  of finite results and the sign of zero are not modelled (a non-zero number divided
  by zero takes the sign of the dividend).
\<close>

datatype jsnum = Num real | PInf | NInf | NaN

fun isFinite :: "jsnum \<Rightarrow> bool" where
  "isFinite (Num x) = True"
| "isFinite PInf = False"
| "isFinite NInf = False"
| "isFinite NaN = False"

instantiation jsnum :: "{plus, minus, uminus, times, inverse, ord}"
begin

fun uminus_jsnum :: "jsnum \<Rightarrow> jsnum" where
  "uminus_jsnum (Num a) = Num (- a)"
| "uminus_jsnum PInf = NInf"
| "uminus_jsnum NInf = PInf"
| "uminus_jsnum NaN = NaN"

fun plus_jsnum :: "jsnum \<Rightarrow> jsnum \<Rightarrow> jsnum" where
  "plus_jsnum (Num a) (Num b) = Num (a + b)"
| "plus_jsnum NaN y = NaN"
| "plus_jsnum x NaN = NaN"
| "plus_jsnum PInf NInf = NaN"
| "plus_jsnum NInf PInf = NaN"
| "plus_jsnum PInf y = PInf"
| "plus_jsnum x PInf = PInf"
| "plus_jsnum NInf y = NInf"
| "plus_jsnum x NInf = NInf"

definition minus_jsnum :: "jsnum \<Rightarrow> jsnum \<Rightarrow> jsnum" where
  "minus_jsnum x y = x + (- y)"

fun times_jsnum :: "jsnum \<Rightarrow> jsnum \<Rightarrow> jsnum" where
  "times_jsnum (Num a) (Num b) = Num (a * b)"
| "times_jsnum NaN y = NaN"
| "times_jsnum x NaN = NaN"
| "times_jsnum PInf PInf = PInf"
| "times_jsnum PInf NInf = NInf"
| "times_jsnum NInf PInf = NInf"
| "times_jsnum NInf NInf = PInf"
| "times_jsnum PInf (Num b) = (if b = 0 then NaN else if 0 < b then PInf else NInf)"
| "times_jsnum NInf (Num b) = (if b = 0 then NaN else if 0 < b then NInf else PInf)"
| "times_jsnum (Num a) PInf = (if a = 0 then NaN else if 0 < a then PInf else NInf)"
| "times_jsnum (Num a) NInf = (if a = 0 then NaN else if 0 < a then NInf else PInf)"

fun divide_jsnum :: "jsnum \<Rightarrow> jsnum \<Rightarrow> jsnum" where
  "divide_jsnum (Num a) (Num b) =
     (if b = 0 then (if a = 0 then NaN else if 0 < a then PInf else NInf)
      else Num (a / b))"
| "divide_jsnum NaN y = NaN"
| "divide_jsnum x NaN = NaN"
| "divide_jsnum (Num a) PInf = Num 0"
| "divide_jsnum (Num a) NInf = Num 0"
| "divide_jsnum PInf (Num b) = (if 0 \<le> b then PInf else NInf)"
| "divide_jsnum NInf (Num b) = (if 0 \<le> b then NInf else PInf)"
| "divide_jsnum PInf y = NaN"
| "divide_jsnum NInf y = NaN"

definition inverse_jsnum :: "jsnum \<Rightarrow> jsnum" where
  "inverse_jsnum x = divide (Num 1) x"

fun less_jsnum :: "jsnum \<Rightarrow> jsnum \<Rightarrow> bool" where
  "less_jsnum (Num a) (Num b) = (a < b)"
| "less_jsnum NaN y = False"
| "less_jsnum x NaN = False"
| "less_jsnum x NInf = False"
| "less_jsnum PInf y = False"
| "less_jsnum NInf y = True"
| "less_jsnum x PInf = True"

fun less_eq_jsnum :: "jsnum \<Rightarrow> jsnum \<Rightarrow> bool" where
  "less_eq_jsnum (Num a) (Num b) = (a \<le> b)"
| "less_eq_jsnum NaN y = False"
| "less_eq_jsnum x NaN = False"
| "less_eq_jsnum NInf y = True"
| "less_eq_jsnum x PInf = True"
| "less_eq_jsnum PInf y = False"
| "less_eq_jsnum x NInf = False"

instance ..

end

text \<open>\<^verbatim>\<open>Math.max\<close> and \<^verbatim>\<open>Math.min\<close> return \<^verbatim>\<open>NaN\<close> as soon as one argument is \<^verbatim>\<open>NaN\<close>.\<close>

fun Math_max :: "jsnum \<Rightarrow> jsnum \<Rightarrow> jsnum" where
  "Math_max NaN y = NaN"
| "Math_max x NaN = NaN"
| "Math_max x y = (if x < y then y else x)"

fun Math_min :: "jsnum \<Rightarrow> jsnum \<Rightarrow> jsnum" where
  "Math_min NaN y = NaN"
| "Math_min x NaN = NaN"
| "Math_min x y = (if y < x then y else x)"

fun Math_floor :: "jsnum \<Rightarrow> jsnum" where
  "Math_floor (Num a) = Num (of_int \<lfloor>a\<rfloor>)"
| "Math_floor x = x"

fun Math_sqrt :: "jsnum \<Rightarrow> jsnum" where
  "Math_sqrt (Num a) = (if a < 0 then NaN else Num (sqrt a))"
| "Math_sqrt PInf = PInf"
| "Math_sqrt x = NaN"

fun Math_exp :: "jsnum \<Rightarrow> jsnum" where
  "Math_exp (Num a) = Num (exp a)"
| "Math_exp PInf = PInf"
| "Math_exp NInf = Num 0"
| "Math_exp NaN = NaN"

fun Math_cos :: "jsnum \<Rightarrow> jsnum" where
  "Math_cos (Num a) = Num (cos a)"
| "Math_cos x = NaN"

text \<open>\<^verbatim>\<open>Math.pow(x, n)\<close> for the literal exponents 2 and 3 the source uses.\<close>

fun Math_pow :: "jsnum \<Rightarrow> nat \<Rightarrow> jsnum" where
  "Math_pow x 0 = Num 1"
| "Math_pow (Num a) n = Num (a ^ n)"
| "Math_pow PInf n = PInf"
| "Math_pow NInf n = (if even n then PInf else NInf)"
| "Math_pow NaN n = NaN"

definition Math_PI :: jsnum where
  "Math_PI = Num pi"

section \<open>Laser-beam model (physics module)\<close>

definition momentumCouplingCoefficient :: "jsnum \<Rightarrow> jsnum" where
  "momentumCouplingCoefficient fluence =
     (let fluenceJcm2 = fluence in
      if fluenceJcm2 < Num 10 then Num 5 + fluenceJcm2 * Num 0.5
      else if fluenceJcm2 < Num 50 then Num 10 + (fluenceJcm2 - Num 10) * Num 0.375
      else if fluenceJcm2 < Num 150 then Num 25 - (fluenceJcm2 - Num 50) * Num 0.05
      else Math_max (Num 10) (Num 20 - (fluenceJcm2 - Num 150) * Num 0.05))"

definition heatAbsorptionEfficiency :: "jsnum \<Rightarrow> jsnum" where
  "heatAbsorptionEfficiency fluence =
     (let fluenceJcm2 = fluence in
      if fluenceJcm2 < Num 20 then Num 0.7
      else if fluenceJcm2 < Num 100 then Num 0.7 - (fluenceJcm2 - Num 20) * Num 0.003
      else Math_max (Num 0.3) (Num 0.46 - (fluenceJcm2 - Num 100) * Num 0.001))"

definition calculateBeamRadius :: "jsnum \<Rightarrow> jsnum \<Rightarrow> jsnum \<Rightarrow> jsnum \<Rightarrow> jsnum" where
  "calculateBeamRadius distance wavelength transmitterDiameter beamQuality =
     (let initialRadius = transmitterDiameter / Num 2;
          divergenceAngle = (beamQuality * wavelength) / (Math_PI * initialRadius);
          rayleighRange = (Math_PI * initialRadius * initialRadius) / (beamQuality * wavelength)
      in if distance > Num 10 * rayleighRange then initialRadius + distance * divergenceAngle
         else (let w0 = initialRadius;
                   w_z = w0 * Math_sqrt (Num 1 + Math_pow (distance / rayleighRange) 2)
               in w_z))"

definition calculateFluence :: "jsnum \<Rightarrow> jsnum \<Rightarrow> jsnum \<Rightarrow> jsnum" where
  "calculateFluence pulseEnergy beamRadius atmosphericTransmission =
     (let deliveredEnergy = pulseEnergy * atmosphericTransmission;
          beamArea = Math_PI * beamRadius * beamRadius;
          fluenceJm2 = deliveredEnergy / beamArea;
          fluenceJcm2 = fluenceJm2 / Num 10000
      in fluenceJcm2)"

definition calculateIntensity :: "jsnum \<Rightarrow> jsnum \<Rightarrow> jsnum \<Rightarrow> jsnum" where
  "calculateIntensity pulseEnergy pulseDuration beamRadius =
     (let peakPower = pulseEnergy / pulseDuration;
          beamArea = Math_PI * beamRadius * beamRadius;
          intensityWm2 = peakPower / beamArea
      in intensityWm2 / Num 10000)"

definition calculateDeltaV :: "jsnum \<Rightarrow> jsnum \<Rightarrow> jsnum \<Rightarrow> jsnum" where
  "calculateDeltaV pulseEnergy mass fluence =
     (let cm = momentumCouplingCoefficient fluence;
          cmSI = cm * Num (1 / 10 ^ 6);
          momentum = cmSI * pulseEnergy;
          deltaV = momentum / mass
      in deltaV)"

text \<open>The parameter \<^verbatim>\<open>currentTemp\<close> is not read by the body.\<close>

definition calculateMaxPulsesPerPass ::
  "jsnum \<Rightarrow> jsnum \<Rightarrow> jsnum \<Rightarrow> jsnum \<Rightarrow> jsnum \<Rightarrow> jsnum" where
  "calculateMaxPulsesPerPass maxTempRise currentTemp fluence areaToMass specificHeat =
     (let efficiency = heatAbsorptionEfficiency fluence;
          fluenceJm2 = fluence * Num 10000;
          energyAbsorbedPerPulse = efficiency * fluenceJm2;
          tempRisePerPulse = (areaToMass / specificHeat) * energyAbsorbedPerPulse;
          maxPulses = Math_floor (maxTempRise / tempRisePerPulse)
      in Math_max (Num 1) maxPulses)"

subsection \<open>Constants of the physics module\<close>

definition TRANSMISSION_EFFICIENCY :: jsnum where "TRANSMISSION_EFFICIENCY = Num 0.7"
definition EARTH_RADIUS :: jsnum where "EARTH_RADIUS = Num 6371000"
definition EARTH_MU :: jsnum where "EARTH_MU = Num 398600441800000"
definition REENTRY_ALTITUDE :: jsnum where "REENTRY_ALTITUDE = Num 200000"
definition MAX_SOLAR_CONSTANT_MULTIPLIER :: jsnum where "MAX_SOLAR_CONSTANT_MULTIPLIER = Num 100"
definition SOLAR_CONSTANT :: jsnum where "SOLAR_CONSTANT = Num 1361"

section \<open>Orbital changes and re-entry estimate (physics module)\<close>

definition estimateReentryTime :: "jsnum \<Rightarrow> jsnum \<Rightarrow> jsnum \<Rightarrow> jsnum" where
  "estimateReentryTime perigeeAltitude apogeeAltitude ballisticCoefficient =
     (let reentryAlt = REENTRY_ALTITUDE
      in if perigeeAltitude \<le> reentryAlt then Num 0
         else (let scaleHeight = Num 70000;
                   rho0 = Num (4 / 10 ^ 12);
                   refAltitude = Num 400000;
                   rho = rho0 * Math_exp (- (perigeeAltitude - refAltitude) / scaleHeight);
                   semiMajorAxis = (perigeeAltitude + apogeeAltitude) / Num 2 + EARTH_RADIUS;
                   orbitalVelocity = Math_sqrt (EARTH_MU / semiMajorAxis);
                   decayRate = (Num 3 * Math_PI / Num 2) * (rho * orbitalVelocity * scaleHeight)
                                 / ballisticCoefficient;
                   altitudeDrop = perigeeAltitude - reentryAlt;
                   timeToReentry = altitudeDrop / decayRate
               in timeToReentry))"

record altitudeChange =
  old :: jsnum
  new :: jsnum
  change :: jsnum

record orbitalChanges =
  deltaSemiMajorAxis :: jsnum
  deltaEccentricity :: jsnum
  newSemiMajorAxis :: jsnum
  newEccentricity :: jsnum
  perigeeAltitude :: altitudeChange
  apogeeAltitude :: altitudeChange

definition calculateOrbitalChanges :: "jsnum \<Rightarrow> jsnum \<Rightarrow> jsnum \<Rightarrow> jsnum \<Rightarrow> orbitalChanges" where
  "calculateOrbitalChanges deltaV semiMajorAxis eccentricity trueAnomaly =
     (let mu = EARTH_MU;
          r = semiMajorAxis * (Num 1 - eccentricity * eccentricity) /
                (Num 1 + eccentricity * Math_cos trueAnomaly);
          v = Math_sqrt (mu * (Num 2 / r - Num 1 / semiMajorAxis));
          vNew = v + deltaV;
          aNew = Num 1 / (Num 2 / r - vNew * vNew / mu);
          hNew = r * vNew;
          eNew = Math_sqrt (Num 1 - hNew * hNew / (mu * aNew));
          earthRadius = EARTH_RADIUS;
          perigeeOld = semiMajorAxis * (Num 1 - eccentricity) - earthRadius;
          apogeeOld = semiMajorAxis * (Num 1 + eccentricity) - earthRadius;
          perigeeNew = aNew * (Num 1 - eNew) - earthRadius;
          apogeeNew = aNew * (Num 1 + eNew) - earthRadius
      in \<lparr> deltaSemiMajorAxis = aNew - semiMajorAxis,
           deltaEccentricity = eNew - eccentricity,
           newSemiMajorAxis = aNew,
           newEccentricity = eNew,
           perigeeAltitude = \<lparr> old = perigeeOld, new = perigeeNew, change = perigeeNew - perigeeOld \<rparr>,
           apogeeAltitude = \<lparr> old = apogeeOld, new = apogeeNew, change = apogeeNew - apogeeOld \<rparr> \<rparr>)"

section \<open>Cost estimator (physics module)\<close>

record missionCost =
  electricityCost :: jsnum
  operatingCost :: jsnum
  totalCost :: jsnum
  costPerKm :: jsnum
  comparisonToSpacecraft :: jsnum

definition calculateMissionCost :: "jsnum \<Rightarrow> jsnum \<Rightarrow> missionCost" where
  "calculateMissionCost totalEnergyGJ durationDays =
     (let electricityCostPerKWh = Num 0.10;
          energyKWh = totalEnergyGJ * Num 277.778;
          electricityCost = energyKWh * electricityCostPerKWh;
          operatingCostPerDay = Num 5000;
          operatingCost = operatingCostPerDay * durationDays;
          totalCost = electricityCost + operatingCost
      in \<lparr> electricityCost = electricityCost,
           operatingCost = operatingCost,
           totalCost = totalCost,
           costPerKm = totalCost / (durationDays * Num 10),
           comparisonToSpacecraft = Num 100000000 / totalCost \<rparr>)"

section \<open>Thermal budget tracker\<close>

datatype material = ALUMINUM | STEEL | MLI

text \<open>The table \<^verbatim>\<open>PHYSICS_CONSTANTS.MATERIALS\<close>.\<close>

fun SPECIFIC_HEAT :: "material \<Rightarrow> jsnum" where
  "SPECIFIC_HEAT ALUMINUM = Num 900"
| "SPECIFIC_HEAT STEEL = Num 470"
| "SPECIFIC_HEAT MLI = Num 1000"

fun MELTING_POINT :: "material \<Rightarrow> jsnum" where
  "MELTING_POINT ALUMINUM = Num 933"
| "MELTING_POINT STEEL = Num 1811"
| "MELTING_POINT MLI = Num 600"

fun MAX_TEMP_RISE :: "material \<Rightarrow> jsnum" where
  "MAX_TEMP_RISE ALUMINUM = Num 100"
| "MAX_TEMP_RISE STEEL = Num 200"
| "MAX_TEMP_RISE MLI = Num 80"

fun THERMAL_CONDUCTIVITY :: "material \<Rightarrow> jsnum" where
  "THERMAL_CONDUCTIVITY ALUMINUM = Num 237"
| "THERMAL_CONDUCTIVITY STEEL = Num 50"
| "THERMAL_CONDUCTIVITY MLI = Num 0.05"

record heatEntry =
  timestamp :: jsnum
  temperature :: jsnum
  tempRise :: jsnum
  totalRise :: jsnum

record thermalStatus =
  currentTemp :: jsnum
  ambientTemp :: jsnum
  tempRise :: jsnum
  maxAllowedRise :: jsnum
  safetyMargin :: jsnum
  meltingPoint :: jsnum
  distanceToMelting :: jsnum
  isSafe :: bool

record ThermalBudgetTracker =
  material :: material
  mass :: jsnum
  area :: jsnum
  areaToMass :: jsnum
  specificHeat :: jsnum
  maxTempRise :: jsnum
  meltingPoint :: jsnum
  thermalConductivity :: jsnum
  currentTemp :: jsnum
  ambientTemp :: jsnum
  heatHistory :: "heatEntry list"

text \<open>The constructor; \<^verbatim>\<open>initialTemp\<close> defaults to 270 at the call sites.\<close>

definition newThermalBudgetTracker ::
  "material \<Rightarrow> jsnum \<Rightarrow> jsnum \<Rightarrow> jsnum \<Rightarrow> ThermalBudgetTracker" where
  "newThermalBudgetTracker mat m a initialTemp =
     \<lparr> material = mat, mass = m, area = a, areaToMass = a / m,
       specificHeat = SPECIFIC_HEAT mat, maxTempRise = MAX_TEMP_RISE mat,
       meltingPoint = MELTING_POINT mat,
       thermalConductivity = THERMAL_CONDUCTIVITY mat,
       currentTemp = initialTemp, ambientTemp = initialTemp, heatHistory = [] \<rparr>"

definition calculateTempRise :: "ThermalBudgetTracker \<Rightarrow> jsnum \<Rightarrow> jsnum \<Rightarrow> jsnum" where
  "calculateTempRise this numPulses fluence =
     (let efficiency = heatAbsorptionEfficiency fluence;
          fluenceJm2 = fluence * Num 10000;
          totalEnergyPerArea = efficiency * fluenceJm2 * numPulses;
          deltaT = (areaToMass this / specificHeat this) * totalEnergyPerArea
      in deltaT)"

datatype reason =
  INTENSITY_TOO_HIGH | THERMAL_LIMIT_REACHED | MELTING_RISK | TEMP_LIMIT_EXCEEDED
  | INSUFFICIENT_COOLDOWN

text \<open>
  \<^verbatim>\<open>HeatingAccepted newTemp tempRise totalRise safetyMargin\<close> is the object with
  \<^verbatim>\<open>success: true\<close>, \<^verbatim>\<open>HeatingRejected reason currentTemp attemptedTemp maxAllowed\<close>
  the one with \<^verbatim>\<open>success: false\<close>.
\<close>

datatype heatingResult =
  HeatingAccepted jsnum jsnum jsnum jsnum
  | HeatingRejected reason jsnum jsnum jsnum

definition applyHeating ::
  "ThermalBudgetTracker \<Rightarrow> jsnum \<Rightarrow> jsnum \<Rightarrow> jsnum \<Rightarrow> heatingResult \<times> ThermalBudgetTracker" where
  "applyHeating this numPulses fluence ts =
     (let tempRise = calculateTempRise this numPulses fluence;
          newTemp = currentTemp this + tempRise;
          totalTempRise = newTemp - ambientTemp this;
          isSafe = (totalTempRise \<le> maxTempRise this);
          wouldMelt = (newTemp \<ge> meltingPoint this)
      in if isSafe \<and> \<not> wouldMelt then
           (HeatingAccepted newTemp tempRise totalTempRise (maxTempRise this - totalTempRise),
            this\<lparr> currentTemp := newTemp,
                  heatHistory := heatHistory this @
                    [\<lparr> timestamp = ts, temperature = newTemp, tempRise = tempRise,
                       totalRise = totalTempRise \<rparr>] \<rparr>)
         else
           (HeatingRejected (if wouldMelt then MELTING_RISK else TEMP_LIMIT_EXCEEDED)
              (currentTemp this) newTemp (ambientTemp this + maxTempRise this),
            this))"

definition applyCooling ::
  "ThermalBudgetTracker \<Rightarrow> jsnum \<Rightarrow> jsnum \<times> ThermalBudgetTracker" where
  "applyCooling this cooldownTime =
     (let sigma = Num (5.67 / 10 ^ 8);
          emissivity = Num 0.8;
          coolingRate = (emissivity * sigma * area this) / (mass this * specificHeat this);
          effectiveTimeConstant = Num 1 / (Num 4 * coolingRate * Math_pow (currentTemp this) 3);
          tempDiff = currentTemp this - ambientTemp this;
          newTempDiff = tempDiff * Math_exp (- cooldownTime / effectiveTimeConstant);
          this' = this\<lparr> currentTemp := ambientTemp this + newTempDiff \<rparr>
      in (currentTemp this', this'))"

definition getStatus :: "ThermalBudgetTracker \<Rightarrow> thermalStatus" where
  "getStatus this =
     \<lparr> thermalStatus.currentTemp = currentTemp this,
       thermalStatus.ambientTemp = ambientTemp this,
       thermalStatus.tempRise = currentTemp this - ambientTemp this,
       maxAllowedRise = maxTempRise this,
       thermalStatus.safetyMargin = maxTempRise this - (currentTemp this - ambientTemp this),
       thermalStatus.meltingPoint = meltingPoint this,
       distanceToMelting = meltingPoint this - currentTemp this,
       thermalStatus.isSafe = ((currentTemp this - ambientTemp this) \<le> maxTempRise this) \<rparr>"

section \<open>One laser engagement (physics module)\<close>

text \<open>
  The fields of the debris object that the engagement reads or writes; optional
  fields are absent (\<open>None\<close>) when the object does not carry them. Every other
  property (identifier, name, inclination) is copied along by the spread and sits in
  the record's extension.
\<close>

record debris =
  size_debris :: jsnum
  mass :: jsnum
  area :: jsnum
  semiMajorAxis :: jsnum
  eccentricity :: jsnum
  perigeeAltitude :: jsnum
  apogeeAltitude :: jsnum
  visibilityDuration :: "jsnum option"
  ballisticCoefficient :: "jsnum option"
  cumulativeDeltaV :: "jsnum option"

record laserParams =
  pulseEnergy :: jsnum
  wavelength :: jsnum
  pulseDuration :: jsnum
  transmitterDiameter :: jsnum
  beamQuality :: jsnum
  repetitionRate :: jsnum

text \<open>\<^verbatim>\<open>x || d\<close> on an optional number: \<^verbatim>\<open>undefined\<close>, \<^verbatim>\<open>0\<close> and \<^verbatim>\<open>NaN\<close> are falsy.\<close>

definition orElse :: "jsnum option \<Rightarrow> jsnum \<Rightarrow> jsnum" where
  "orElse v d = (case v of None \<Rightarrow> d | Some x \<Rightarrow> if x = Num 0 \<or> x = NaN then d else x)"

text \<open>Strict equality \<^verbatim>\<open>===\<close> on numbers: \<^verbatim>\<open>NaN\<close> equals nothing.\<close>

definition strictEq :: "jsnum \<Rightarrow> jsnum \<Rightarrow> bool" where
  "strictEq x y = (x \<noteq> NaN \<and> y \<noteq> NaN \<and> x = y)"

datatype limitingFactor = THERMAL | TIME

record passData =
  timestamp :: jsnum
  beamRadius :: jsnum
  fluence :: jsnum
  intensity :: jsnum
  pulsesDelivered :: jsnum
  maxPulsesByThermal :: jsnum
  maxPulsesByTime :: jsnum
  limitingFactor :: limitingFactor
  deltaVPerPulse :: jsnum
  totalDeltaV :: jsnum
  cumulativeDeltaV :: jsnum
  thermalResult :: heatingResult
  thermalStatus :: thermalStatus
  orbitalChanges :: orbitalChanges
  updatedDebris :: debris
  reentryAchieved :: bool
  timeToReentry :: "jsnum option"
  perigeeReduction :: jsnum
  momentumCouplingCoeff :: jsnum
  heatEfficiency :: jsnum
  energyDelivered :: jsnum

text \<open>
  What \<^verbatim>\<open>simulateLaserPass\<close> returns: with \<^verbatim>\<open>success: false\<close> the reason and the
  data that goes with it (\<^verbatim>\<open>intensity\<close> and \<^verbatim>\<open>maxIntensity\<close>; the thermal status; the
  rejected heating result), with \<^verbatim>\<open>success: true\<close> the full record. Only the latter
  carries updated orbital elements.
\<close>

datatype failureData =
  IntensityData jsnum jsnum
  | StatusData thermalStatus
  | HeatingData heatingResult

datatype passResult = PassFailure reason failureData | PassSuccess passData

text \<open>
  The tracker is an object the function mutates through \<^verbatim>\<open>applyHeating\<close>: the
  model returns it next to the result. The debris object is only read.
\<close>

definition simulateLaserPass ::
  "debris \<Rightarrow> laserParams \<Rightarrow> jsnum \<Rightarrow> ThermalBudgetTracker \<Rightarrow> jsnum
     \<Rightarrow> passResult \<times> ThermalBudgetTracker" where
  "simulateLaserPass debris laserParams distance thermalTracker ts =
     (let beamRadius = calculateBeamRadius distance (wavelength laserParams)
            (transmitterDiameter laserParams) (beamQuality laserParams);
          fluence = calculateFluence (pulseEnergy laserParams) beamRadius TRANSMISSION_EFFICIENCY;
          intensity = calculateIntensity (pulseEnergy laserParams) (pulseDuration laserParams)
            beamRadius;
          maxIntensity = SOLAR_CONSTANT * MAX_SOLAR_CONSTANT_MULTIPLIER / Num 10000
      in if size_debris debris > Num 5 \<and> intensity > maxIntensity then
           (PassFailure INTENSITY_TOO_HIGH (IntensityData intensity maxIntensity), thermalTracker)
         else
     (let maxPulses = calculateMaxPulsesPerPass
            (maxTempRise thermalTracker - (currentTemp thermalTracker - ambientTemp thermalTracker))
            (currentTemp thermalTracker) fluence (debris.area debris / debris.mass debris)
            (specificHeat thermalTracker);
          passDuration = orElse (visibilityDuration debris) (Num 300);
          maxPulsesByTime = Math_floor (passDuration * repetitionRate laserParams);
          actualPulses = Math_min maxPulses maxPulsesByTime
      in if actualPulses < Num 1 then
           (PassFailure THERMAL_LIMIT_REACHED (StatusData (getStatus thermalTracker)),
            thermalTracker)
         else
     (case applyHeating thermalTracker actualPulses fluence ts of
        (HeatingRejected r c a m, thermalTracker') \<Rightarrow>
           (PassFailure r (HeatingData (HeatingRejected r c a m)), thermalTracker')
      | (HeatingAccepted nt tr tot sm, thermalTracker') \<Rightarrow>
     (let thermalResult = HeatingAccepted nt tr tot sm;
          deltaVSingle = calculateDeltaV (pulseEnergy laserParams) (debris.mass debris) fluence;
          totalDeltaV = deltaVSingle * actualPulses;
          orbitalChanges = calculateOrbitalChanges (- totalDeltaV) (semiMajorAxis debris)
            (eccentricity debris) Math_PI;
          updatedDebris = debris\<lparr>
            semiMajorAxis := newSemiMajorAxis orbitalChanges,
            eccentricity := newEccentricity orbitalChanges,
            debris.perigeeAltitude := new (orbitalChanges.perigeeAltitude orbitalChanges),
            debris.apogeeAltitude := new (orbitalChanges.apogeeAltitude orbitalChanges) \<rparr>;
          reentryAchieved =
            (new (orbitalChanges.perigeeAltitude orbitalChanges) \<le> REENTRY_ALTITUDE);
          timeToReentry =
            (if \<not> reentryAchieved then
               Some (estimateReentryTime (new (orbitalChanges.perigeeAltitude orbitalChanges))
                 (new (orbitalChanges.apogeeAltitude orbitalChanges))
                 (orElse (ballisticCoefficient debris)
                    (debris.mass debris / (Num 2.2 * debris.area debris))))
             else None)
      in (PassSuccess
           \<lparr> timestamp = ts,
             beamRadius = beamRadius,
             fluence = fluence,
             intensity = intensity,
             pulsesDelivered = actualPulses,
             maxPulsesByThermal = maxPulses,
             maxPulsesByTime = maxPulsesByTime,
             limitingFactor = (if strictEq actualPulses maxPulses then THERMAL else TIME),
             deltaVPerPulse = deltaVSingle,
             totalDeltaV = totalDeltaV,
             cumulativeDeltaV = orElse (debris.cumulativeDeltaV debris) (Num 0) + totalDeltaV,
             thermalResult = thermalResult,
             thermalStatus = getStatus thermalTracker',
             orbitalChanges = orbitalChanges,
             updatedDebris = updatedDebris,
             reentryAchieved = reentryAchieved,
             timeToReentry = timeToReentry,
             perigeeReduction = - change (orbitalChanges.perigeeAltitude orbitalChanges),
             momentumCouplingCoeff = momentumCouplingCoefficient fluence,
             heatEfficiency = heatAbsorptionEfficiency fluence,
             energyDelivered = pulseEnergy laserParams * actualPulses \<rparr>,
          thermalTracker')))))"

text \<open>The debris object and the laser configuration of \<^verbatim>\<open>exampleMission\<close>.\<close>

definition exampleDebris :: debris where
  "exampleDebris =
     \<lparr> size_debris = Num 0.5, debris.mass = Num 15, debris.area = Num 0.1,
       debris.semiMajorAxis = Num 7178000, debris.eccentricity = Num 0.001,
       debris.perigeeAltitude = Num 799000, debris.apogeeAltitude = Num 801000,
       visibilityDuration = Some (Num 300), ballisticCoefficient = Some (Num 150),
       debris.cumulativeDeltaV = None \<rparr>"

definition exampleLaserParams :: laserParams where
  "exampleLaserParams =
     \<lparr> pulseEnergy = Num 100000, wavelength = Num (1030 / 10 ^ 9),
       pulseDuration = Num (5 / 10 ^ 9), transmitterDiameter = Num 4.0,
       beamQuality = Num 1.2, repetitionRate = Num 5 \<rparr>"

section \<open>Orbital mechanics module\<close>

definition EARTH_RADIUS_KM :: jsnum where "EARTH_RADIUS_KM = Num 6371.0"
definition MU_EARTH :: jsnum where "MU_EARTH = Num 398600.4418"
definition RE_ENTRY_THRESHOLD_KM :: jsnum where "RE_ENTRY_THRESHOLD_KM = Num 200"

definition isReEntryAchieved :: "jsnum \<Rightarrow> bool" where
  "isReEntryAchieved perigeeAlt = (perigeeAlt < RE_ENTRY_THRESHOLD_KM)"

text \<open>
  An element of the array \<^verbatim>\<open>trackPerigeeEvolution\<close> returns. The first element
  (pass 0) has neither \<^verbatim>\<open>deltaV\<close> nor \<^verbatim>\<open>reEntry\<close>.
\<close>

record evolutionEntry =
  passNumber :: nat
  perigeeAlt :: jsnum
  apogeeAlt :: jsnum
  semiMajorAxis :: jsnum
  eccentricity :: jsnum
  deltaV :: "jsnum option"
  reEntry :: "bool option"

text \<open>
  The body of \<^verbatim>\<open>deltaVs.forEach((dv, index) => ...)\<close>: the variables \<^verbatim>\<open>a\<close>, \<^verbatim>\<open>rp\<close>
  and \<^verbatim>\<open>e\<close> are updated by every call, \<^verbatim>\<open>ra\<close> never is. The result lists the
  elements pushed, in order.
\<close>

fun forEachDeltaV ::
  "jsnum \<Rightarrow> jsnum \<times> jsnum \<times> jsnum \<Rightarrow> nat \<Rightarrow> jsnum list \<Rightarrow> evolutionEntry list" where
  "forEachDeltaV ra (a, rp, e) index [] = []"
| "forEachDeltaV ra (a, rp, e) index (dv # dvs) =
     (let v_apogee = Math_sqrt (MU_EARTH * (Num 2 / ra - Num 1 / a));
          v_new = v_apogee - (dv / Num 1000);
          a_new = Num 1 / (Num 2 / ra - v_new * v_new / MU_EARTH);
          rp_new = Num 2 * a_new - ra;
          a' = a_new;
          rp' = rp_new;
          e' = (ra - rp') / (ra + rp')
      in \<lparr> passNumber = index + 1,
           perigeeAlt = rp' - EARTH_RADIUS_KM,
           apogeeAlt = ra - EARTH_RADIUS_KM,
           semiMajorAxis = a',
           eccentricity = e',
           deltaV = Some dv,
           reEntry = Some ((rp' - EARTH_RADIUS_KM) < RE_ENTRY_THRESHOLD_KM) \<rparr>
         # forEachDeltaV ra (a', rp', e') (index + 1) dvs)"

definition trackPerigeeEvolution :: "jsnum \<Rightarrow> jsnum \<Rightarrow> jsnum list \<Rightarrow> evolutionEntry list" where
  "trackPerigeeEvolution initialPerigee initialApogee deltaVs =
     (let a = (initialPerigee + initialApogee) / Num 2 + EARTH_RADIUS_KM;
          rp = initialPerigee + EARTH_RADIUS_KM;
          ra = initialApogee + EARTH_RADIUS_KM;
          e = (ra - rp) / (ra + rp)
      in \<lparr> passNumber = 0,
           perigeeAlt = initialPerigee,
           apogeeAlt = initialApogee,
           semiMajorAxis = a,
           eccentricity = e,
           deltaV = None,
           reEntry = None \<rparr>
         # forEachDeltaV ra (a, rp, e) 0 deltaVs)"

section \<open>Visibility scanner (map module)\<close>

text \<open>
  Instants are \<^verbatim>\<open>Date\<close> values: integer milliseconds. The propagator library, the
  station and the element set enter through \<open>look\<close>, which gives the elevation and the
  azimuth in degrees (after \<^verbatim>\<open>radiansToDegrees\<close>) at an instant.
\<close>

record openPass =
  startTime :: int
  maxElevation :: jsnum
  azimuthStart :: jsnum

record pass = openPass +
  endTime :: int
  duration :: jsnum

text \<open>
  One iteration of the \<^verbatim>\<open>while\<close> loop at the instant \<^verbatim>\<open>currentTime\<close>, on the
  variables \<^verbatim>\<open>currentPass\<close> and \<^verbatim>\<open>passes\<close>. \<^verbatim>\<open>isPassActive\<close> is true exactly when
  \<^verbatim>\<open>currentPass\<close> is not \<^verbatim>\<open>null\<close>, so the option carries both variables.
\<close>

definition scanStep ::
  "(int \<Rightarrow> jsnum \<times> jsnum) \<Rightarrow> jsnum \<Rightarrow> int \<Rightarrow> openPass option \<times> pass list
     \<Rightarrow> openPass option \<times> pass list" where
  "scanStep look minElevation currentTime st =
     (let (currentPass, passes) = st;
          (elevationDeg, azimuthDeg) = look currentTime
      in if elevationDeg > minElevation then
           (case currentPass of
              None \<Rightarrow>
                (Some \<lparr> startTime = currentTime, maxElevation = elevationDeg,
                        azimuthStart = azimuthDeg \<rparr>, passes)
            | Some cp \<Rightarrow>
                (Some (if elevationDeg > maxElevation cp
                       then cp\<lparr> maxElevation := elevationDeg \<rparr> else cp), passes))
         else
           (case currentPass of
              Some cp \<Rightarrow>
                (let closed = \<lparr> startTime = startTime cp, maxElevation = maxElevation cp,
                                 azimuthStart = azimuthStart cp, endTime = currentTime,
                                 duration = Num (real_of_int (currentTime - startTime cp) / 1000) \<rparr>
                 in (None, if duration closed > Num 30 then passes @ [closed] else passes))
            | None \<Rightarrow> (None, passes)))"

text \<open>
  The scanner moves its clock with the local-time setters of \<^verbatim>\<open>Date\<close>, so the time
  zone of the host enters the result. It is given by the two conversions of the
  language standard: \<open>LocalTime\<close> takes an instant to the local time value, \<open>UTC\<close>
  takes a local time value back to an instant.
\<close>

record timeZone =
  LocalTime :: "int \<Rightarrow> int"
  UTC :: "int \<Rightarrow> int"

text \<open>
  \<^verbatim>\<open>currentTime.setMinutes(currentTime.getMinutes() + 1)\<close>: the minute field of the local
  time is raised by one, which adds 60000 ms to the local time value, and the result
  is converted back.
\<close>

definition setMinutesPlusOne :: "timeZone \<Rightarrow> int \<Rightarrow> int" where
  "setMinutesPlusOne tz t = UTC tz (LocalTime tz t + 60000)"

text \<open>
  \<^verbatim>\<open>endDate.setDate(startDate.getDate() + daysToPredict)\<close>, with \<^verbatim>\<open>endDate\<close> and
  \<^verbatim>\<open>startDate\<close> both created by \<^verbatim>\<open>new Date()\<close> and taken to hold the same instant:
  the day of the month of the local time is raised by \<^verbatim>\<open>daysToPredict\<close>, which adds
  that many days of 86400000 ms to the local time value.
\<close>

definition setDatePlus :: "timeZone \<Rightarrow> int \<Rightarrow> int \<Rightarrow> int" where
  "setDatePlus tz t days = UTC tz (LocalTime tz t + days * 86400000)"

text \<open>
  The loop \<^verbatim>\<open>while (currentTime < endDate)\<close>: each iteration ends by
  \<^verbatim>\<open>setMinutes\<close>. Nothing in the code makes the new instant later than the old one,
  so the loop is a partial function: \<open>None\<close> stands for a scan that does not return.
  A pass still open when the loop ends is dropped.
\<close>

partial_function (option) scanLoop ::
  "timeZone \<Rightarrow> (int \<Rightarrow> jsnum \<times> jsnum) \<Rightarrow> jsnum \<Rightarrow> int \<Rightarrow> int \<Rightarrow> openPass option \<times> pass list
     \<Rightarrow> pass list option" where
  "scanLoop tz look minElevation endDate currentTime st =
     (if currentTime < endDate
      then scanLoop tz look minElevation endDate (setMinutesPlusOne tz currentTime)
             (scanStep look minElevation currentTime st)
      else Some (snd st))"

text \<open>\<open>startDate\<close> is the instant of the call (\<^verbatim>\<open>new Date()\<close>).\<close>

definition calculateVisibilityWindows ::
  "timeZone \<Rightarrow> (int \<Rightarrow> jsnum \<times> jsnum) \<Rightarrow> int \<Rightarrow> int \<Rightarrow> jsnum \<Rightarrow> pass list option" where
  "calculateVisibilityWindows tz look startDate daysToPredict minElevation =
     (let endDate = setDatePlus tz startDate daysToPredict
      in scanLoop tz look minElevation endDate startDate (None, []))"


text \<open>
  A zone that leaves daylight-saving time at the instant 90000: before it the local
  time is one hour ahead, from it on it is universal time. A local time value that
  occurs twice is read with the offset before the change, as the language standard
  prescribes.
\<close>

definition fallBackZone :: timeZone where
  "fallBackZone =
     \<lparr> LocalTime = (\<lambda>t. if t < 90000 then t + 3600000 else t),
       UTC = (\<lambda>l. if l < 90000 + 3600000 then l - 3600000 else l) \<rparr>"

subsection \<open>Synthetic elevation profiles\<close>

text \<open>
  Elevation 45 degrees inside one interval and 0 outside. With the scan starting at
  instant 0 in universal time the samples fall on the multiples of 60000 ms: a crossing of 20 s
  from 50 s to 70 s, a crossing of 40 s from 5 s to 45 s, and a crossing of 40 s from
  40 s to 80 s.
\<close>

definition crossing20s :: "int \<Rightarrow> jsnum \<times> jsnum" where
  "crossing20s t = (if 50000 \<le> t \<and> t < 70000 then (Num 45, Num 180) else (Num 0, Num 180))"



section \<open>Auxiliary facts: number model and beam model\<close>

lemma Num_minus [simp]: "Num a - Num b = Num (a - b)"
  by (simp add: minus_jsnum_def)

lemma less_NaN [simp]: "\<not> x < NaN" "\<not> NaN < x" "\<not> x \<le> NaN" "\<not> NaN \<le> x"
  by (cases x; simp)+

lemma not_le_iff_less_jsnum:
  "y \<noteq> NaN \<Longrightarrow> x \<noteq> NaN \<Longrightarrow> (\<not> y \<le> x) = (x < y)"
  by (cases x; cases y; auto)

lemma Math_pow_Num: "Math_pow (Num a) n = Num (a ^ n)"
  by (cases n) simp_all

lemma MELTING_POINT_Num: "MELTING_POINT m \<noteq> NaN"
  by (cases m) simp_all

lemma Math_max_1: "Math_max (Num 1) x = NaN \<or> Num 1 \<le> Math_max (Num 1) x"
  by (cases x) auto

lemma Math_max_Num: "Math_max (Num a) (Num b) = Num (max a b)"
  by (simp add: max_def)

lemma heatAbsorptionEfficiency_pos:
  "\<exists>h. heatAbsorptionEfficiency (Num f) = Num h \<and> 0 < h"
proof -
  consider "f < 20" | "20 \<le> f" "f < 100" | "100 \<le> f" by linarith
  then show ?thesis
  proof cases
    case 1
    then show ?thesis
      by (intro exI [of _ "0.7"]) (simp add: heatAbsorptionEfficiency_def Let_def)
  next
    case 2
    then show ?thesis
      by (intro exI [of _ "0.7 - (f - 20) * 0.003"])
        (simp add: heatAbsorptionEfficiency_def Let_def)
  next
    case 3
    have "(0::real) < max 0.3 (0.46 - (f - 100) * 0.001)" by simp
    with 3 show ?thesis
      by (intro exI [of _ "max 0.3 (0.46 - (f - 100) * 0.001)"])
        (simp add: heatAbsorptionEfficiency_def Let_def Math_max_Num
           del: max_less_iff_conj less_max_iff_disj)
  qed
qed

lemma Math_min_less_1:
  assumes "Math_min x y < Num 1" and "x = NaN \<or> Num 1 \<le> x"
  shows "y < Num 1"
  using assms by (cases x; cases y; auto split: if_splits)

lemma Math_sqrt_one_plus_square:
  "Math_sqrt (Num 1 + Math_pow (Num x) 2) = Num (sqrt (1 + x ^ 2))"
proof -
  have "\<not> 1 + x ^ 2 < 0" by (simp add: not_less)
  then show ?thesis by (simp add: Math_pow_Num)
qed

lemma calculateBeamRadius_Num:
  assumes "0 < wl" and "0 < D" and "0 < q"
  shows "calculateBeamRadius (Num z) (Num wl) (Num D) (Num q) =
           (if 10 * (pi * (D / 2) * (D / 2) / (q * wl)) < z
            then Num (D / 2 + z * (q * wl / (pi * (D / 2))))
            else Num (D / 2 * sqrt (1 + (z / (pi * (D / 2) * (D / 2) / (q * wl))) ^ 2)))"
proof -
  define zR where "zR = pi * (D / 2) * (D / 2) / (q * wl)"
  have nz: "pi * (D / 2) \<noteq> 0" "q * wl \<noteq> 0" "zR \<noteq> 0"
    using assms by (simp_all add: zR_def)
  have r0: "Num D / Num 2 = Num (D / 2)" by simp
  have th: "(Num q * Num wl) / (Math_PI * Num (D / 2)) = Num (q * wl / (pi * (D / 2)))"
    using nz(1) by (simp add: Math_PI_def)
  have zr: "(Math_PI * Num (D / 2) * Num (D / 2)) / (Num q * Num wl) = Num zR"
    using nz(2) by (simp add: Math_PI_def zR_def)
  have dz: "Num z / Num zR = Num (z / zR)" using nz(3) by simp
  show ?thesis
    unfolding calculateBeamRadius_def Let_def r0 th zr dz Math_sqrt_one_plus_square
    by (simp add: zR_def)
qed

lemma calculateBeamRadius_pos:
  assumes "0 \<le> z" and "0 < wl" and "0 < D" and "0 < q"
  shows "\<exists>w. calculateBeamRadius (Num z) (Num wl) (Num D) (Num q) = Num w \<and> 0 < w"
proof -
  have far: "0 < D / 2 + z * (q * wl / (pi * (D / 2)))"
    using assms by (simp add: add_pos_nonneg)
  have "0 < sqrt (1 + (z / (pi * (D / 2) * (D / 2) / (q * wl))) ^ 2)"
    by (simp add: add_pos_nonneg)
  then have near: "0 < D / 2 * sqrt (1 + (z / (pi * (D / 2) * (D / 2) / (q * wl))) ^ 2)"
    using assms(3) by (simp add: zero_less_mult_iff)
  show ?thesis
  proof (cases "10 * (pi * (D / 2) * (D / 2) / (q * wl)) < z")
    case True
    then have "calculateBeamRadius (Num z) (Num wl) (Num D) (Num q) =
        Num (D / 2 + z * (q * wl / (pi * (D / 2))))"
      unfolding calculateBeamRadius_Num [OF assms(2-4)] by (simp only: if_True)
    with far show ?thesis by blast
  next
    case False
    then have "calculateBeamRadius (Num z) (Num wl) (Num D) (Num q) =
        Num (D / 2 * sqrt (1 + (z / (pi * (D / 2) * (D / 2) / (q * wl))) ^ 2))"
      unfolding calculateBeamRadius_Num [OF assms(2-4)] by (simp only: if_False)
    with near show ?thesis by blast
  qed
qed

lemma calculateFluence_pos:
  assumes "0 < E" and "0 < w" and "0 < t"
  shows "\<exists>f. calculateFluence (Num E) (Num w) (Num t) = Num f \<and> 0 < f"
proof -
  have "pi * w * w \<noteq> 0" using assms by simp
  moreover have "0 < E * t / (pi * w * w) / 10000" using assms by simp
  ultimately show ?thesis
    unfolding calculateFluence_def Let_def Math_PI_def
    by (intro exI [of _ "E * t / (pi * w * w) / 10000"]) simp
qed

lemma calculateIntensity_Num:
  assumes "pd \<noteq> 0" and "w \<noteq> 0"
  shows "calculateIntensity (Num E) (Num pd) (Num w) = Num (E / pd / (pi * w * w) / 10000)"
  using assms unfolding calculateIntensity_def Let_def Math_PI_def by simp

lemma exampleBeamRadius:
  "\<exists>w. calculateBeamRadius (Num 900000) (wavelength exampleLaserParams)
          (transmitterDiameter exampleLaserParams) (beamQuality exampleLaserParams) = Num w \<and>
       0 < w \<and> w * w \<le> 8"
proof -
  define zR :: real where "zR = pi * (4 / 2) * (4 / 2) / (1.2 * (1030 / 10 ^ 9))"
  have "8 / (1.2 * (1030 / 10 ^ 9)) \<le> zR"
    unfolding zR_def using pi_ge_two by (intro divide_right_mono) simp_all
  then have big: "900000 \<le> zR" by simp
  then have x: "0 \<le> 900000 / zR" "900000 / zR \<le> 1" by simp_all
  then have x2: "(900000 / zR) ^ 2 \<le> 1" by (simp add: power_le_one)
  define w where "w = 4 / 2 * sqrt (1 + (900000 / zR) ^ 2)"
  have near: "\<not> 10 * zR < 900000" using big by simp
  have "calculateBeamRadius (Num 900000) (Num (1030 / 10 ^ 9)) (Num 4) (Num 1.2) = Num w"
    unfolding w_def zR_def
    using calculateBeamRadius_Num [of "1030 / 10 ^ 9" 4 "1.2" 900000] near [unfolded zR_def]
    by simp
  moreover have "0 < w" unfolding w_def by (simp add: add_pos_nonneg)
  moreover have "w * w \<le> 8"
  proof -
    have "w * w = 4 * (sqrt (1 + (900000 / zR) ^ 2)) ^ 2"
      unfolding w_def by (simp add: power2_eq_square)
    also have "\<dots> = 4 * (1 + (900000 / zR) ^ 2)" by simp
    also have "\<dots> \<le> 8" using x2 by simp
    finally show ?thesis .
  qed
  ultimately show ?thesis by (simp add: exampleLaserParams_def)
qed

section \<open>The coupling and absorption curves\<close>

text \<open>
  Claim C1, as the code has it. For a finite fluence \<open>f\<close> the momentum-coupling
  coefficient is piecewise linear with five segments: \<open>5 + f/2\<close> below 10 (from 5 at
  0 up to 10), \<open>10 + 0.375 (f - 10)\<close> on 10 to 50 (up to 25), \<open>25 - 0.05 (f - 50)\<close>
  on 50 to 150 (down to 20 at 150, not 17.5), then \<open>20 - 0.05 (f - 150)\<close> on 150 to
  350 (down to 10), and from 350 on the constant floor 10 that \<^verbatim>\<open>Math.max\<close> imposes.
\<close>

theorem momentumCouplingCoefficient_segments:
  "(f < 10 \<longrightarrow> momentumCouplingCoefficient (Num f) = Num (5 + f * 0.5)) \<and>
   (10 \<le> f \<and> f < 50 \<longrightarrow> momentumCouplingCoefficient (Num f) = Num (10 + (f - 10) * 0.375)) \<and>
   (50 \<le> f \<and> f < 150 \<longrightarrow> momentumCouplingCoefficient (Num f) = Num (25 - (f - 50) * 0.05)) \<and>
   (150 \<le> f \<and> f \<le> 350 \<longrightarrow> momentumCouplingCoefficient (Num f) = Num (20 - (f - 150) * 0.05)) \<and>
   (350 \<le> f \<longrightarrow> momentumCouplingCoefficient (Num f) = Num 10)"
  by (simp add: momentumCouplingCoefficient_def)

text \<open>The values at the breakpoints, one instance of the theorem for each segment.\<close>

theorem momentumCouplingCoefficient_segments_witness:
  "momentumCouplingCoefficient (Num 0) = Num 5 \<and>
   momentumCouplingCoefficient (Num 10) = Num 10 \<and>
   momentumCouplingCoefficient (Num 50) = Num 25 \<and>
   momentumCouplingCoefficient (Num 150) = Num 20 \<and>
   momentumCouplingCoefficient (Num 350) = Num 10 \<and>
   momentumCouplingCoefficient (Num 1000) = Num 10"
  using momentumCouplingCoefficient_segments [of 0] momentumCouplingCoefficient_segments [of 10]
    momentumCouplingCoefficient_segments [of 50] momentumCouplingCoefficient_segments [of 150]
    momentumCouplingCoefficient_segments [of 350] momentumCouplingCoefficient_segments [of 1000]
  by simp

text \<open>
  The coefficient is not a constant floor above 150 J/cm2: it is 20 at 150, passes 17.5
  at 200 and still falls at 300.
\<close>

theorem momentumCouplingCoefficient_not_constant_above_150:
  "momentumCouplingCoefficient (Num 150) = Num 20 \<and>
   momentumCouplingCoefficient (Num 200) = Num 17.5 \<and>
   momentumCouplingCoefficient (Num 300) = Num 12.5 \<and>
   momentumCouplingCoefficient (Num 200) \<noteq> momentumCouplingCoefficient (Num 300)"
  by (simp add: momentumCouplingCoefficient_def)

text \<open>
  Claim C2, as the code has it. For a finite fluence \<open>f\<close> the heat-absorption
  efficiency is 0.7 below 20, \<open>0.7 - 0.003 (f - 20)\<close> on 20 to 100 (down to 0.46),
  \<open>0.46 - 0.001 (f - 100)\<close> on 100 to 260, and the constant floor 0.3 from 260 on.
\<close>

theorem heatAbsorptionEfficiency_segments:
  "(f < 20 \<longrightarrow> heatAbsorptionEfficiency (Num f) = Num 0.7) \<and>
   (20 \<le> f \<and> f < 100 \<longrightarrow> heatAbsorptionEfficiency (Num f) = Num (0.7 - (f - 20) * 0.003)) \<and>
   (100 \<le> f \<and> f \<le> 260 \<longrightarrow> heatAbsorptionEfficiency (Num f) = Num (0.46 - (f - 100) * 0.001)) \<and>
   (260 \<le> f \<longrightarrow> heatAbsorptionEfficiency (Num f) = Num 0.3)"
  by (simp add: heatAbsorptionEfficiency_def; argo)

theorem heatAbsorptionEfficiency_segments_witness:
  "heatAbsorptionEfficiency (Num 0) = Num 0.7 \<and>
   heatAbsorptionEfficiency (Num 20) = Num 0.7 \<and>
   heatAbsorptionEfficiency (Num 100) = Num 0.46 \<and>
   heatAbsorptionEfficiency (Num 260) = Num 0.3 \<and>
   heatAbsorptionEfficiency (Num 1000) = Num 0.3"
  using heatAbsorptionEfficiency_segments [of 0] heatAbsorptionEfficiency_segments [of 20]
    heatAbsorptionEfficiency_segments [of 100] heatAbsorptionEfficiency_segments [of 260]
    heatAbsorptionEfficiency_segments [of 1000]
  by simp

text \<open>The efficiency has not reached its floor at 150 J/cm2.\<close>

theorem heatAbsorptionEfficiency_above_floor_at_150:
  "heatAbsorptionEfficiency (Num 150) = Num 0.41 \<and>
   heatAbsorptionEfficiency (Num 150) \<noteq> Num 0.3"
  by (simp add: heatAbsorptionEfficiency_def)

section \<open>The thermal ledger\<close>

text \<open>
  Claim C3. For a tracker whose \<^verbatim>\<open>areaToMass\<close> and \<^verbatim>\<open>meltingPoint\<close> are what the
  constructor stored (no method writes them), \<^verbatim>\<open>applyHeating\<close> proposes
  \<open>newT = current + deltaT\<close> with
  \<open>deltaT = (area / mass) / specificHeat * (\<eta>(fluence) * fluence_Jm2 * pulses)\<close>. It accepts
  exactly when \<open>newT - ambient \<le> maxTempRise\<close> and \<open>newT < meltingPoint\<close>: the tracker
  then holds \<open>newT\<close> and one more history entry, and the result carries the safety
  margin \<open>maxTempRise - (newT - ambient)\<close>. Otherwise it rejects, with
  \<^verbatim>\<open>MELTING_RISK\<close> when \<open>newT \<ge> meltingPoint\<close> and \<^verbatim>\<open>TEMP_LIMIT_EXCEEDED\<close> if not, and
  returns the tracker as it was, \<^verbatim>\<open>currentTemp\<close> included. This holds for every
  number, \<^verbatim>\<open>NaN\<close> and the infinities too.
\<close>

theorem applyHeating_contract:
  assumes "meltingPoint this = MELTING_POINT (material this)"
      and "areaToMass this = ThermalBudgetTracker.area this / ThermalBudgetTracker.mass this"
  shows "let deltaT = ((ThermalBudgetTracker.area this / ThermalBudgetTracker.mass this)
                         / specificHeat this)
                      * (heatAbsorptionEfficiency fl * (fl * Num 10000) * numPulses);
             newT = currentTemp this + deltaT;
             total = newT - ambientTemp this
         in (if total \<le> maxTempRise this \<and> newT < meltingPoint this
             then applyHeating this numPulses fl ts =
                    (HeatingAccepted newT deltaT total (maxTempRise this - total),
                     this\<lparr> currentTemp := newT,
                           heatHistory := heatHistory this @
                             [\<lparr> heatEntry.timestamp = ts, temperature = newT,
                                heatEntry.tempRise = deltaT, totalRise = total \<rparr>] \<rparr>)
             else applyHeating this numPulses fl ts =
                    (HeatingRejected
                       (if newT \<ge> meltingPoint this then MELTING_RISK else TEMP_LIMIT_EXCEEDED)
                       (currentTemp this) newT (ambientTemp this + maxTempRise this),
                     this))"
proof -
  define deltaT where "deltaT = calculateTempRise this numPulses fl"
  define newT where "newT = currentTemp this + deltaT"
  have mp: "meltingPoint this \<noteq> NaN"
    using assms(1) MELTING_POINT_Num by simp
  have melt: "(\<not> meltingPoint this \<le> newT) = (newT < meltingPoint this)"
    if "newT - ambientTemp this \<le> maxTempRise this"
  proof -
    from that have "newT \<noteq> NaN" by (auto simp: minus_jsnum_def)
    then show ?thesis using mp by (simp add: not_le_iff_less_jsnum)
  qed
  have lt_le: "newT < meltingPoint this \<Longrightarrow> \<not> meltingPoint this \<le> newT"
    by (cases newT; cases "meltingPoint this"; auto)
  show ?thesis
    using melt lt_le
    unfolding applyHeating_def calculateTempRise_def Let_def assms(2)
      deltaT_def newT_def
    by auto
qed

text \<open>
  An aluminium fragment of 15 kg and 0.3 m2 at 270 K under 10 J/cm2: one pulse is
  accepted, a hundred exceed the allowed rise, a thousand would melt it.
\<close>

theorem applyHeating_contract_witness:
  "applyHeating (newThermalBudgetTracker ALUMINUM (Num 15) (Num 0.3) (Num 270))
     (Num 1) (Num 10) (Num 0) =
     (HeatingAccepted (Num (270 + 14 / 9)) (Num (14 / 9)) (Num (14 / 9)) (Num (100 - 14 / 9)),
      (newThermalBudgetTracker ALUMINUM (Num 15) (Num 0.3) (Num 270))
        \<lparr> currentTemp := Num (270 + 14 / 9),
          heatHistory := [\<lparr> heatEntry.timestamp = Num 0, temperature = Num (270 + 14 / 9),
                            heatEntry.tempRise = Num (14 / 9), totalRise = Num (14 / 9) \<rparr>] \<rparr>) \<and>
   applyHeating (newThermalBudgetTracker ALUMINUM (Num 15) (Num 0.3) (Num 270))
     (Num 100) (Num 10) (Num 0) =
     (HeatingRejected TEMP_LIMIT_EXCEEDED (Num 270) (Num (270 + 1400 / 9)) (Num 370),
      newThermalBudgetTracker ALUMINUM (Num 15) (Num 0.3) (Num 270)) \<and>
   applyHeating (newThermalBudgetTracker ALUMINUM (Num 15) (Num 0.3) (Num 270))
     (Num 1000) (Num 10) (Num 0) =
     (HeatingRejected MELTING_RISK (Num 270) (Num (270 + 14000 / 9)) (Num 370),
      newThermalBudgetTracker ALUMINUM (Num 15) (Num 0.3) (Num 270))"
  using applyHeating_contract [where this = "newThermalBudgetTracker ALUMINUM (Num 15) (Num 0.3) (Num 270)"
      and fl = "Num 10" and numPulses = "Num 1" and ts = "Num 0"]
    applyHeating_contract [where this = "newThermalBudgetTracker ALUMINUM (Num 15) (Num 0.3) (Num 270)"
      and fl = "Num 10" and numPulses = "Num 100" and ts = "Num 0"]
    applyHeating_contract [where this = "newThermalBudgetTracker ALUMINUM (Num 15) (Num 0.3) (Num 270)"
      and fl = "Num 10" and numPulses = "Num 1000" and ts = "Num 0"]
  by (simp add: newThermalBudgetTracker_def heatAbsorptionEfficiency_def Let_def)

text \<open>
  Claim C7, as the code has it. \<^verbatim>\<open>applyCooling\<close> has no failure result. For a tracker
  with finite fields, positive mass and specific heat, non-negative area and
  non-negative temperature (kelvin), and a finite non-negative elapsed time \<open>s\<close>, it
  stores and returns \<open>ambient + (current - ambient) * exp (- s / \<tau>)\<close> with
  \<open>\<tau> = 1 / (4 * coolingRate * T^3)\<close> and
  \<open>coolingRate = 0.8 * \<sigma> * area / (mass * specificHeat)\<close>; in exact real arithmetic
  the new temperature is finite and no further from ambient than the old one. The
  constructor enforces none of these conditions.
\<close>

theorem applyCooling_relaxes:
  assumes "ThermalBudgetTracker.mass this = Num m" and "0 < m"
      and "specificHeat this = Num c" and "0 < c"
      and "ThermalBudgetTracker.area this = Num A" and "0 \<le> A"
      and "currentTemp this = Num T" and "0 \<le> T"
      and "ambientTemp this = Num Ta"
      and "0 \<le> s"
  shows "\<exists>T'. applyCooling this (Num s) = (Num T', this\<lparr> currentTemp := Num T' \<rparr>) \<and>
           Num T' = ambientTemp this + (currentTemp this - ambientTemp this) *
             Math_exp (- Num s /
               (Num 1 / (Num 4 *
                  ((Num 0.8 * Num (5.67 / 10 ^ 8) * ThermalBudgetTracker.area this) /
                     (ThermalBudgetTracker.mass this * specificHeat this)) *
                  Math_pow (currentTemp this) 3))) \<and>
           T' = Ta + (T - Ta) * exp (- (s * (4 * (0.8 * (5.67 / 10 ^ 8) * A / (m * c)) * T ^ 3))) \<and>
           \<bar>T' - Ta\<bar> \<le> \<bar>T - Ta\<bar>"
proof -
  define kr where "kr = 0.8 * (5.67 / 10 ^ 8) * A / (m * c)"
  define k where "k = 4 * kr * T ^ 3"
  define T' where "T' = Ta + (T - Ta) * exp (- (s * k))"
  have mc: "m * c \<noteq> 0" using assms by simp
  have k0: "0 \<le> k" unfolding k_def kr_def using assms by simp
  have e1: "exp (- (s * k)) \<le> 1" using k0 \<open>0 \<le> s\<close> by simp
  have rate: "(Num 0.8 * Num (5.67 / 10 ^ 8) * Num A) / (Num m * Num c) = Num kr"
    using mc by (simp add: kr_def)
  have den: "Num 4 * Num kr * Math_pow (Num T) 3 = Num k"
    by (simp add: k_def Math_pow_Num)
  have expo: "Math_exp (- Num s / (Num 1 / Num k)) = Num (exp (- (s * k)))"
    by (cases "k = 0") simp_all
  have new: "Num Ta + (Num T - Num Ta) * Math_exp (- Num s / (Num 1 / Num k)) = Num T'"
    by (simp add: expo T'_def)
  have bound: "\<bar>T' - Ta\<bar> \<le> \<bar>T - Ta\<bar>"
  proof -
    have "\<bar>T' - Ta\<bar> = \<bar>T - Ta\<bar> * exp (- (s * k))"
      by (simp add: T'_def abs_mult)
    also have "\<dots> \<le> \<bar>T - Ta\<bar> * 1"
      by (rule mult_left_mono [OF e1]) simp
    finally show ?thesis by simp
  qed
  have run: "applyCooling this (Num s) = (Num T', this\<lparr> currentTemp := Num T' \<rparr>)"
    unfolding applyCooling_def Let_def assms(1,3,5,7,9) rate den new by simp
  have form: "Num T' = ambientTemp this + (currentTemp this - ambientTemp this) *
             Math_exp (- Num s /
               (Num 1 / (Num 4 *
                  ((Num 0.8 * Num (5.67 / 10 ^ 8) * ThermalBudgetTracker.area this) /
                     (ThermalBudgetTracker.mass this * specificHeat this)) *
                  Math_pow (currentTemp this) 3)))"
    unfolding assms(1,3,5,7,9) rate den new ..
  have closed: "T' = Ta + (T - Ta) * exp (- (s * (4 * (0.8 * (5.67 / 10 ^ 8) * A / (m * c)) * T ^ 3)))"
    by (simp add: T'_def k_def kr_def)
  from run form closed bound show ?thesis by blast
qed

theorem applyCooling_relaxes_witness:
  "\<exists>T'. applyCooling
           ((newThermalBudgetTracker ALUMINUM (Num 15) (Num 0.3) (Num 270))
              \<lparr> currentTemp := Num 300 \<rparr>) (Num 3600) =
           (Num T', (newThermalBudgetTracker ALUMINUM (Num 15) (Num 0.3) (Num 270))
              \<lparr> currentTemp := Num T' \<rparr>) \<and>
         \<bar>T' - 270\<bar> \<le> \<bar>300 - 270\<bar>"
proof -
  let ?tr = "(newThermalBudgetTracker ALUMINUM (Num 15) (Num 0.3) (Num 270))
               \<lparr> currentTemp := Num 300 \<rparr>"
  have "\<exists>T'. applyCooling ?tr (Num 3600) = (Num T', ?tr\<lparr> currentTemp := Num T' \<rparr>) \<and>
           Num T' = ambientTemp ?tr + (currentTemp ?tr - ambientTemp ?tr) *
             Math_exp (- Num 3600 /
               (Num 1 / (Num 4 *
                  ((Num 0.8 * Num (5.67 / 10 ^ 8) * ThermalBudgetTracker.area ?tr) /
                     (ThermalBudgetTracker.mass ?tr * specificHeat ?tr)) *
                  Math_pow (currentTemp ?tr) 3))) \<and>
           T' = 270 + (300 - 270) *
                  exp (- (3600 * (4 * (0.8 * (5.67 / 10 ^ 8) * 0.3 / (15 * 900)) * 300 ^ 3))) \<and>
           \<bar>T' - 270\<bar> \<le> \<bar>300 - 270\<bar>"
    by (rule applyCooling_relaxes) (simp_all add: newThermalBudgetTracker_def)
  then obtain T' where
    "applyCooling ?tr (Num 3600) = (Num T', ?tr\<lparr> currentTemp := Num T' \<rparr>)"
    and "\<bar>T' - 270\<bar> \<le> \<bar>300 - 270\<bar>"
    by blast
  then show ?thesis by (intro exI [of _ T']) simp
qed

text \<open>
  Outside these conditions the claim fails. With temperatures below zero the time
  constant is negative: a tracker at -50 with ambient -100 is 50 away from ambient
  before an hour of cooling and further away after it. With mass 0 and no elapsed time
  the exponent is \<open>0 / 0\<close> and the temperature stored is \<^verbatim>\<open>NaN\<close>.
\<close>

theorem applyCooling_can_move_away:
  "currentTemp ((newThermalBudgetTracker ALUMINUM (Num 15) (Num 0.3) (Num (- 100)))
      \<lparr> currentTemp := Num (- 50) \<rparr>) -
   ambientTemp ((newThermalBudgetTracker ALUMINUM (Num 15) (Num 0.3) (Num (- 100)))
      \<lparr> currentTemp := Num (- 50) \<rparr>) = Num 50 \<and>
   Num 50 <
     fst (applyCooling ((newThermalBudgetTracker ALUMINUM (Num 15) (Num 0.3) (Num (- 100)))
            \<lparr> currentTemp := Num (- 50) \<rparr>) (Num 3600)) -
     ambientTemp ((newThermalBudgetTracker ALUMINUM (Num 15) (Num 0.3) (Num (- 100)))
            \<lparr> currentTemp := Num (- 50) \<rparr>) \<and>
   fst (applyCooling (newThermalBudgetTracker ALUMINUM (Num 0) (Num 0.3) (Num 270)) (Num 0)) = NaN"
proof (intro conjI)
  let ?tr = "(newThermalBudgetTracker ALUMINUM (Num 15) (Num 0.3) (Num (- 100)))
      \<lparr> currentTemp := Num (- 50) \<rparr>"
  show "currentTemp ?tr - ambientTemp ?tr = Num 50"
    by (simp add: newThermalBudgetTracker_def)
  define k :: real where "k = 4 * (0.8 * (5.67 / 10 ^ 8) * 0.3 / (15 * 900)) * (- 50) ^ 3"
  have kneg: "k < 0" unfolding k_def by simp
  have rate: "(Num 0.8 * Num (5.67 / 10 ^ 8) * Num 0.3) / (Num 15 * Num 900) =
      Num (0.8 * (5.67 / 10 ^ 8) * 0.3 / (15 * 900))" by simp
  have den: "Num 4 * Num (0.8 * (5.67 / 10 ^ 8) * 0.3 / (15 * 900)) * Math_pow (Num (- 50)) 3 = Num k"
    by (simp add: k_def Math_pow_Num)
  have expo: "Math_exp (- Num 3600 / (Num 1 / Num k)) = Num (exp (- (3600 * k)))"
    using kneg by simp
  have "0 < - (3600 * k)" using kneg by simp
  then have big: "1 < exp (- (3600 * k))" by simp
  define T' :: real where "T' = - 100 + 50 * exp (- (3600 * k))"
  have sel: "ThermalBudgetTracker.mass ?tr = Num 15" "specificHeat ?tr = Num 900"
    "ThermalBudgetTracker.area ?tr = Num 0.3" "currentTemp ?tr = Num (- 50)"
    "ambientTemp ?tr = Num (- 100)"
    by (simp_all add: newThermalBudgetTracker_def)
  have new: "Num (- 100) + (Num (- 50) - Num (- 100)) *
      Math_exp (- Num 3600 / (Num 1 / Num k)) = Num T'"
    unfolding expo by (simp add: T'_def)
  have run: "applyCooling ?tr (Num 3600) = (Num T', ?tr\<lparr> currentTemp := Num T' \<rparr>)"
    unfolding applyCooling_def Let_def sel rate den new by simp
  have "50 < T' - (- 100)" unfolding T'_def using big by simp
  then show "Num 50 < fst (applyCooling ?tr (Num 3600)) - ambientTemp ?tr"
    unfolding run sel by simp
  show "fst (applyCooling (newThermalBudgetTracker ALUMINUM (Num 0) (Num 0.3) (Num 270)) (Num 0)) = NaN"
    by (simp add: applyCooling_def Let_def newThermalBudgetTracker_def Math_pow_Num)
qed

section \<open>One engagement: the intensity gate and the pulse budget\<close>

text \<open>
  Claim C6. For a debris object with \<^verbatim>\<open>size > 5\<close> and a configuration whose intensity at
  the computed beam radius exceeds \<open>1361 * 100 / 10000 = 13.61\<close> W/cm2,
  \<^verbatim>\<open>simulateLaserPass\<close> returns the failure \<^verbatim>\<open>INTENSITY_TOO_HIGH\<close> with the intensity and
  the limit, and the tracker it was given, unchanged. The debris object is only an
  argument, and the failure carries no updated orbital elements.
\<close>

theorem simulateLaserPass_intensity_gate:
  assumes "size_debris d > Num 5"
      and "calculateIntensity (pulseEnergy lp) (pulseDuration lp)
             (calculateBeamRadius distance (wavelength lp) (transmitterDiameter lp) (beamQuality lp))
           > SOLAR_CONSTANT * MAX_SOLAR_CONSTANT_MULTIPLIER / Num 10000"
  shows "simulateLaserPass d lp distance tr ts =
           (PassFailure INTENSITY_TOO_HIGH
              (IntensityData
                 (calculateIntensity (pulseEnergy lp) (pulseDuration lp)
                    (calculateBeamRadius distance (wavelength lp) (transmitterDiameter lp)
                       (beamQuality lp)))
                 (Num 13.61)),
            tr)"
  using assms unfolding simulateLaserPass_def Let_def
  by (simp add: SOLAR_CONSTANT_def MAX_SOLAR_CONSTANT_MULTIPLIER_def)

text \<open>
  The example fragment taken as a 6 m object, 900 km away: the intensity is far above the
  limit and the engagement is refused.
\<close>

theorem simulateLaserPass_intensity_gate_witness:
  "\<exists>i. simulateLaserPass (exampleDebris\<lparr> size_debris := Num 6 \<rparr>) exampleLaserParams
          (Num 900000) (newThermalBudgetTracker ALUMINUM (Num 15) (Num 0.1) (Num 270)) (Num 0) =
        (PassFailure INTENSITY_TOO_HIGH (IntensityData (Num i) (Num 13.61)),
         newThermalBudgetTracker ALUMINUM (Num 15) (Num 0.1) (Num 270)) \<and>
       13.61 < i"
proof -
  let ?d = "exampleDebris\<lparr> size_debris := Num 6 \<rparr>"
  let ?lp = exampleLaserParams
  let ?tr = "newThermalBudgetTracker ALUMINUM (Num 15) (Num 0.1) (Num 270)"
  obtain w where w: "calculateBeamRadius (Num 900000) (wavelength ?lp) (transmitterDiameter ?lp)
      (beamQuality ?lp) = Num w" and wpos: "0 < w" and w8: "w * w \<le> 8"
    using exampleBeamRadius by blast
  define i where "i = 100000 / (5 / 10 ^ 9) / (pi * w * w) / 10000"
  have int: "calculateIntensity (pulseEnergy ?lp) (pulseDuration ?lp) (Num w) = Num i"
    using calculateIntensity_Num [of "5 / 10 ^ 9" w 100000] wpos
    by (simp add: exampleLaserParams_def i_def)
  have "pi * (w * w) \<le> 4 * 8"
    using pi_less_4 w8 wpos by (intro mult_mono) simp_all
  then have area: "pi * w * w \<le> 32" by (simp add: mult.assoc)
  have apos: "0 < pi * w * w" using wpos by simp
  have "100000 / (5 / 10 ^ 9) / 32 \<le> 100000 / (5 / 10 ^ 9) / (pi * w * w)"
    using area apos by (intro divide_left_mono) simp_all
  then have "625000000000 \<le> 100000 / (5 / 10 ^ 9) / (pi * w * w)" by simp
  then have big: "13.61 < i" unfolding i_def by simp
  have size: "size_debris ?d > Num 5" by (simp add: exampleDebris_def)
  have gate: "calculateIntensity (pulseEnergy ?lp) (pulseDuration ?lp)
             (calculateBeamRadius (Num 900000) (wavelength ?lp) (transmitterDiameter ?lp)
                (beamQuality ?lp))
           > SOLAR_CONSTANT * MAX_SOLAR_CONSTANT_MULTIPLIER / Num 10000"
    unfolding w int using big
    by (simp add: SOLAR_CONSTANT_def MAX_SOLAR_CONSTANT_MULTIPLIER_def)
  have "simulateLaserPass ?d ?lp (Num 900000) ?tr (Num 0) =
          (PassFailure INTENSITY_TOO_HIGH (IntensityData (Num i) (Num 13.61)), ?tr)"
    using simulateLaserPass_intensity_gate [OF size gate, of ?tr "Num 0"]
    unfolding w int .
  with big show ?thesis by blast
qed

text \<open>
  What \<^verbatim>\<open>calculateMaxPulsesPerPass\<close> guarantees, in the model's exact arithmetic: for
  every input, whatever the thermal margin, the result is at least 1 or it is \<^verbatim>\<open>NaN\<close>;
  for finite inputs with positive fluence, area-to-mass ratio and specific heat it is a
  number \<open>n \<ge> 1\<close>. Hence when \<^verbatim>\<open>simulateLaserPass\<close> answers
  \<^verbatim>\<open>THERMAL_LIMIT_REACHED\<close>, the time-based limit \<^verbatim>\<open>maxPulsesByTime\<close> is below 1.
\<close>

theorem calculateMaxPulsesPerPass_floor:
  "(calculateMaxPulsesPerPass mtr ct fl atm sh = NaN \<or>
      Num 1 \<le> calculateMaxPulsesPerPass mtr ct fl atm sh) \<and>
   (0 < f \<and> 0 < q \<and> 0 < c \<longrightarrow>
      (\<exists>n. calculateMaxPulsesPerPass (Num r) ct (Num f) (Num q) (Num c) = Num n \<and> 1 \<le> n)) \<and>
   (fst (simulateLaserPass d lp distance tr ts) = PassFailure THERMAL_LIMIT_REACHED x \<longrightarrow>
      Math_floor (orElse (visibilityDuration d) (Num 300) * repetitionRate lp) < Num 1)"
proof (intro conjI impI)
  show "calculateMaxPulsesPerPass mtr ct fl atm sh = NaN \<or>
      Num 1 \<le> calculateMaxPulsesPerPass mtr ct fl atm sh"
    unfolding calculateMaxPulsesPerPass_def Let_def by (rule Math_max_1)
next
  assume pos: "0 < f \<and> 0 < q \<and> 0 < c"
  obtain h where h: "heatAbsorptionEfficiency (Num f) = Num h" "0 < h"
    using heatAbsorptionEfficiency_pos by blast
  have nz: "q / c * (h * (f * 10000)) \<noteq> 0" using pos h by simp
  have "calculateMaxPulsesPerPass (Num r) ct (Num f) (Num q) (Num c) =
          Num (max 1 (of_int \<lfloor>r / (q / c * (h * (f * 10000)))\<rfloor>))"
    using pos h nz unfolding calculateMaxPulsesPerPass_def Let_def
    by (simp add: Math_max_Num del: max_less_iff_conj less_max_iff_disj)
  moreover have "(1::real) \<le> max 1 (of_int \<lfloor>r / (q / c * (h * (f * 10000)))\<rfloor>)"
    by (rule max.cobounded1)
  ultimately show "\<exists>n. calculateMaxPulsesPerPass (Num r) ct (Num f) (Num q) (Num c) = Num n \<and> 1 \<le> n"
    by blast
next
  assume a: "fst (simulateLaserPass d lp distance tr ts) = PassFailure THERMAL_LIMIT_REACHED x"
  let ?mp = "calculateMaxPulsesPerPass
            (maxTempRise tr - (currentTemp tr - ambientTemp tr))
            (currentTemp tr)
            (calculateFluence (pulseEnergy lp)
               (calculateBeamRadius distance (wavelength lp) (transmitterDiameter lp) (beamQuality lp))
               TRANSMISSION_EFFICIENCY)
            (debris.area d / debris.mass d) (specificHeat tr)"
  let ?bt = "Math_floor (orElse (visibilityDuration d) (Num 300) * repetitionRate lp)"
  have mp: "?mp = NaN \<or> Num 1 \<le> ?mp"
    unfolding calculateMaxPulsesPerPass_def Let_def by (rule Math_max_1)
  have "Math_min ?mp ?bt < Num 1"
    using a unfolding simulateLaserPass_def Let_def applyHeating_def
    by (auto split: if_splits)
  then show "?bt < Num 1" using mp by (rule Math_min_less_1)
qed

text \<open>
  With a repetition rate of 0 the time-based limit is 0 and the example engagement
  stops at \<^verbatim>\<open>THERMAL_LIMIT_REACHED\<close>, although the tracker is at ambient temperature.
\<close>

theorem calculateMaxPulsesPerPass_floor_witness:
  "fst (simulateLaserPass exampleDebris (exampleLaserParams\<lparr> repetitionRate := Num 0 \<rparr>)
          (Num 900000) (newThermalBudgetTracker ALUMINUM (Num 15) (Num 0.1) (Num 270)) (Num 0)) =
     PassFailure THERMAL_LIMIT_REACHED
       (StatusData (getStatus (newThermalBudgetTracker ALUMINUM (Num 15) (Num 0.1) (Num 270)))) \<and>
   Math_floor (orElse (visibilityDuration exampleDebris) (Num 300) *
                 repetitionRate (exampleLaserParams\<lparr> repetitionRate := Num 0 \<rparr>)) < Num 1"
proof -
  let ?d = exampleDebris
  let ?lp = "exampleLaserParams\<lparr> repetitionRate := Num 0 \<rparr>"
  let ?tr = "newThermalBudgetTracker ALUMINUM (Num 15) (Num 0.1) (Num 270)"
  obtain w where w: "calculateBeamRadius (Num 900000) (wavelength ?lp) (transmitterDiameter ?lp)
      (beamQuality ?lp) = Num w" and wpos: "0 < w"
    using calculateBeamRadius_pos [of 900000 "1030 / 10 ^ 9" 4 "1.2"]
    by (auto simp add: exampleLaserParams_def)
  obtain f where f: "calculateFluence (pulseEnergy ?lp) (Num w) TRANSMISSION_EFFICIENCY = Num f"
    and fpos: "0 < f"
    using calculateFluence_pos [of 100000 w "0.7"] wpos
    by (auto simp add: exampleLaserParams_def TRANSMISSION_EFFICIENCY_def)
  have "\<exists>n. calculateMaxPulsesPerPass (Num 100) (currentTemp ?tr) (Num f) (Num (0.1 / 15)) (Num 900)
          = Num n \<and> 1 \<le> n"
    using calculateMaxPulsesPerPass_floor [where f = f and q = "0.1 / 15" and c = 900 and r = 100
        and ct = "currentTemp ?tr"] fpos
    by simp
  then obtain n where n: "calculateMaxPulsesPerPass
        (maxTempRise ?tr - (currentTemp ?tr - ambientTemp ?tr)) (currentTemp ?tr) (Num f)
        (debris.area ?d / debris.mass ?d) (specificHeat ?tr) = Num n" and npos: "1 \<le> n"
    by (auto simp add: newThermalBudgetTracker_def exampleDebris_def)
  have res: "fst (simulateLaserPass ?d ?lp (Num 900000) ?tr (Num 0)) =
      PassFailure THERMAL_LIMIT_REACHED (StatusData (getStatus ?tr))"
    unfolding simulateLaserPass_def Let_def w f n
    using npos by (simp add: exampleDebris_def exampleLaserParams_def orElse_def)
  from res calculateMaxPulsesPerPass_floor [where d = ?d and lp = ?lp and distance = "Num 900000"
      and tr = ?tr and ts = "Num 0" and x = "StatusData (getStatus ?tr)"]
  show ?thesis by blast
qed

text \<open>
  Claim C10. The function ends with \<^verbatim>\<open>return Math.max(1, maxPulses); // At least 1 pulse\<close>
  and the claim says that it returns at least 1 for every input. With no margin and no
  fluence the quotient of the margin by the rise per pulse is \<open>0 / 0\<close>, its floor is
  \<^verbatim>\<open>NaN\<close>, and \<^verbatim>\<open>Math.max(1, NaN)\<close> is \<^verbatim>\<open>NaN\<close>: the result is not at least 1.
\<close>

theorem calculateMaxPulsesPerPass_NaN:
  "calculateMaxPulsesPerPass (Num 0) (Num 270) (Num 0) (Num 0.02) (Num 900) = NaN \<and>
   \<not> Num 1 \<le> calculateMaxPulsesPerPass (Num 0) (Num 270) (Num 0) (Num 0.02) (Num 900)"
  by (simp add: calculateMaxPulsesPerPass_def heatAbsorptionEfficiency_def Let_def)

section \<open>The cost estimator\<close>

text \<open>
  Claim C9, as the code has it. \<^verbatim>\<open>calculateMissionCost\<close> divides without a guard. For
  a finite energy \<open>E\<close> and duration \<open>d\<close> every field of the result is a finite number
  exactly when \<open>d \<noteq> 0\<close> and the total cost is not zero; the fields are then the
  electricity cost \<open>E * 277.778 * 0.10\<close>, the operating cost \<open>5000 * d\<close>, their sum,
  the sum over \<open>10 * d\<close>, and \<open>10^8\<close> over the sum.
\<close>

theorem calculateMissionCost_finite:
  "(d \<noteq> 0 \<and> E * 277.778 * 0.10 + 5000 * d \<noteq> 0 \<longrightarrow>
      calculateMissionCost (Num E) (Num d) =
        \<lparr> electricityCost = Num (E * 277.778 * 0.10),
          operatingCost = Num (5000 * d),
          totalCost = Num (E * 277.778 * 0.10 + 5000 * d),
          costPerKm = Num ((E * 277.778 * 0.10 + 5000 * d) / (d * 10)),
          comparisonToSpacecraft = Num (100000000 / (E * 277.778 * 0.10 + 5000 * d)) \<rparr>) \<and>
   ((isFinite (electricityCost (calculateMissionCost (Num E) (Num d))) \<and>
     isFinite (operatingCost (calculateMissionCost (Num E) (Num d))) \<and>
     isFinite (totalCost (calculateMissionCost (Num E) (Num d))) \<and>
     isFinite (costPerKm (calculateMissionCost (Num E) (Num d))) \<and>
     isFinite (comparisonToSpacecraft (calculateMissionCost (Num E) (Num d))))
    = (d \<noteq> 0 \<and> E * 277.778 * 0.10 + 5000 * d \<noteq> 0))"
  by (simp add: calculateMissionCost_def Let_def)

theorem calculateMissionCost_finite_witness:
  "calculateMissionCost (Num 1) (Num 10) =
        \<lparr> electricityCost = Num 27.7778,
          operatingCost = Num 50000,
          totalCost = Num 50027.7778,
          costPerKm = Num 500.277778,
          comparisonToSpacecraft = Num (100000000 / 50027.7778) \<rparr>"
  using calculateMissionCost_finite [of 10 1] by simp

text \<open>At zero energy and zero duration the total is 0 and both quotients are not finite.\<close>

theorem calculateMissionCost_zero_cost_not_finite:
  "totalCost (calculateMissionCost (Num 0) (Num 0)) = Num 0 \<and>
   costPerKm (calculateMissionCost (Num 0) (Num 0)) = NaN \<and>
   comparisonToSpacecraft (calculateMissionCost (Num 0) (Num 0)) = PInf"
  by (simp add: calculateMissionCost_def Let_def)

section \<open>Perigee evolution\<close>

lemma forEachDeltaV_length: "length (forEachDeltaV ra st idx dvs) = length dvs"
proof (induction dvs arbitrary: st idx)
  case Nil
  show ?case by (cases st) simp
next
  case (Cons dv dvs)
  show ?case by (cases st) (simp add: Let_def Cons.IH)
qed

lemma forEachDeltaV_nth:
  "i < length dvs \<Longrightarrow> semiMajorAxis e0 = a \<Longrightarrow>
   (e0 # forEachDeltaV ra (a, rp, e) idx dvs) ! Suc i =
     (let a_i = semiMajorAxis ((e0 # forEachDeltaV ra (a, rp, e) idx dvs) ! i);
          v_apogee = Math_sqrt (MU_EARTH * (Num 2 / ra - Num 1 / a_i));
          v_new = v_apogee - dvs ! i / Num 1000;
          a_new = Num 1 / (Num 2 / ra - v_new * v_new / MU_EARTH);
          rp_new = Num 2 * a_new - ra
      in \<lparr> passNumber = idx + i + 1,
           perigeeAlt = rp_new - EARTH_RADIUS_KM,
           apogeeAlt = ra - EARTH_RADIUS_KM,
           semiMajorAxis = a_new,
           eccentricity = (ra - rp_new) / (ra + rp_new),
           deltaV = Some (dvs ! i),
           reEntry = Some (rp_new - EARTH_RADIUS_KM < RE_ENTRY_THRESHOLD_KM) \<rparr>)"
proof (induction dvs arbitrary: i e0 a rp e idx)
  case Nil
  then show ?case by simp
next
  case (Cons dv dvs)
  show ?case
  proof (cases i)
    case 0
    with Cons.prems show ?thesis by (simp add: Let_def)
  next
    case (Suc j)
    with Cons.prems have j: "j < length dvs" by simp
    show ?thesis
      using Cons.IH [OF j, where idx = "idx + 1"] Cons.prems(2) Suc
      by (simp add: Let_def)
  qed
qed

text \<open>
  Claim C4. \<^verbatim>\<open>trackPerigeeEvolution\<close> returns one element for pass 0, holding the
  initial altitudes, and one for each delta-V. With \<open>ra\<close> the apogee radius, fixed
  throughout, and \<open>a\<close> the semi-major axis of the element before, element \<open>i + 1\<close> is
  obtained from the velocity at apogee \<open>sqrt (\<mu> (2 / ra - 1 / a))\<close>, lowered by
  \<open>dv / 1000\<close>; from the semi-major axis \<open>1 / (2 / ra - v\<^sub>n\<^sub>e\<^sub>w * v\<^sub>n\<^sub>e\<^sub>w / \<mu>)\<close>, the vis-viva
  relation at radius \<open>ra\<close> solved for it; and from the perigee radius \<open>2 a\<^sub>n\<^sub>e\<^sub>w - ra\<close>.
  Its re-entry flag is set exactly when its perigee altitude is below 200 km.
\<close>

theorem trackPerigeeEvolution_recurrence:
  "length (trackPerigeeEvolution p0 q0 dvs) = length dvs + 1 \<and>
   trackPerigeeEvolution p0 q0 dvs ! 0 =
     \<lparr> passNumber = 0, perigeeAlt = p0, apogeeAlt = q0,
       semiMajorAxis = (p0 + q0) / Num 2 + EARTH_RADIUS_KM,
       eccentricity = ((q0 + EARTH_RADIUS_KM) - (p0 + EARTH_RADIUS_KM)) /
                      ((q0 + EARTH_RADIUS_KM) + (p0 + EARTH_RADIUS_KM)),
       deltaV = None, reEntry = None \<rparr> \<and>
   (\<forall>i < length dvs.
      trackPerigeeEvolution p0 q0 dvs ! (i + 1) =
        (let ra = q0 + EARTH_RADIUS_KM;
             a = semiMajorAxis (trackPerigeeEvolution p0 q0 dvs ! i);
             v_apogee = Math_sqrt (MU_EARTH * (Num 2 / ra - Num 1 / a));
             v_new = v_apogee - dvs ! i / Num 1000;
             a_new = Num 1 / (Num 2 / ra - v_new * v_new / MU_EARTH);
             rp_new = Num 2 * a_new - ra
         in \<lparr> passNumber = i + 1,
              perigeeAlt = rp_new - EARTH_RADIUS_KM,
              apogeeAlt = ra - EARTH_RADIUS_KM,
              semiMajorAxis = a_new,
              eccentricity = (ra - rp_new) / (ra + rp_new),
              deltaV = Some (dvs ! i),
              reEntry = Some (rp_new - EARTH_RADIUS_KM < RE_ENTRY_THRESHOLD_KM) \<rparr>) \<and>
      reEntry (trackPerigeeEvolution p0 q0 dvs ! (i + 1)) =
        Some (perigeeAlt (trackPerigeeEvolution p0 q0 dvs ! (i + 1)) < Num 200))"
proof (intro conjI allI impI)
  show "length (trackPerigeeEvolution p0 q0 dvs) = length dvs + 1"
    by (simp add: trackPerigeeEvolution_def Let_def forEachDeltaV_length)
next
  show "trackPerigeeEvolution p0 q0 dvs ! 0 =
     \<lparr> passNumber = 0, perigeeAlt = p0, apogeeAlt = q0,
       semiMajorAxis = (p0 + q0) / Num 2 + EARTH_RADIUS_KM,
       eccentricity = ((q0 + EARTH_RADIUS_KM) - (p0 + EARTH_RADIUS_KM)) /
                      ((q0 + EARTH_RADIUS_KM) + (p0 + EARTH_RADIUS_KM)),
       deltaV = None, reEntry = None \<rparr>"
    by (simp add: trackPerigeeEvolution_def Let_def)
next
  fix i assume i: "i < length dvs"
  show step: "trackPerigeeEvolution p0 q0 dvs ! (i + 1) =
        (let ra = q0 + EARTH_RADIUS_KM;
             a = semiMajorAxis (trackPerigeeEvolution p0 q0 dvs ! i);
             v_apogee = Math_sqrt (MU_EARTH * (Num 2 / ra - Num 1 / a));
             v_new = v_apogee - dvs ! i / Num 1000;
             a_new = Num 1 / (Num 2 / ra - v_new * v_new / MU_EARTH);
             rp_new = Num 2 * a_new - ra
         in \<lparr> passNumber = i + 1,
              perigeeAlt = rp_new - EARTH_RADIUS_KM,
              apogeeAlt = ra - EARTH_RADIUS_KM,
              semiMajorAxis = a_new,
              eccentricity = (ra - rp_new) / (ra + rp_new),
              deltaV = Some (dvs ! i),
              reEntry = Some (rp_new - EARTH_RADIUS_KM < RE_ENTRY_THRESHOLD_KM) \<rparr>)"
    unfolding trackPerigeeEvolution_def Let_def
    using forEachDeltaV_nth [OF i, where idx = 0 and ra = "q0 + EARTH_RADIUS_KM", unfolded Let_def]
    by simp
  show "reEntry (trackPerigeeEvolution p0 q0 dvs ! (i + 1)) =
        Some (perigeeAlt (trackPerigeeEvolution p0 q0 dvs ! (i + 1)) < Num 200)"
    unfolding step Let_def by (simp add: RE_ENTRY_THRESHOLD_KM_def)
qed

theorem trackPerigeeEvolution_recurrence_witness:
  "length (trackPerigeeEvolution (Num 480) (Num 520) [Num 10, Num 12]) = 3 \<and>
   passNumber (trackPerigeeEvolution (Num 480) (Num 520) [Num 10, Num 12] ! 2) = 2 \<and>
   apogeeAlt (trackPerigeeEvolution (Num 480) (Num 520) [Num 10, Num 12] ! 2) = Num 520 \<and>
   deltaV (trackPerigeeEvolution (Num 480) (Num 520) [Num 10, Num 12] ! 2) = Some (Num 12) \<and>
   reEntry (trackPerigeeEvolution (Num 480) (Num 520) [Num 10, Num 12] ! 2) =
     Some (perigeeAlt (trackPerigeeEvolution (Num 480) (Num 520) [Num 10, Num 12] ! 2) < Num 200)"
proof -
  note r = trackPerigeeEvolution_recurrence [of "Num 480" "Num 520" "[Num 10, Num 12]"]
  have len: "length (trackPerigeeEvolution (Num 480) (Num 520) [Num 10, Num 12]) = 3"
    using r by simp
  have "(1::nat) < length [Num 10, Num 12]" by simp
  with r have step:
    "trackPerigeeEvolution (Num 480) (Num 520) [Num 10, Num 12] ! (1 + 1) =
        (let ra = Num 520 + EARTH_RADIUS_KM;
             a = semiMajorAxis (trackPerigeeEvolution (Num 480) (Num 520) [Num 10, Num 12] ! 1);
             v_apogee = Math_sqrt (MU_EARTH * (Num 2 / ra - Num 1 / a));
             v_new = v_apogee - [Num 10, Num 12] ! 1 / Num 1000;
             a_new = Num 1 / (Num 2 / ra - v_new * v_new / MU_EARTH);
             rp_new = Num 2 * a_new - ra
         in \<lparr> passNumber = 1 + 1,
              perigeeAlt = rp_new - EARTH_RADIUS_KM,
              apogeeAlt = ra - EARTH_RADIUS_KM,
              semiMajorAxis = a_new,
              eccentricity = (ra - rp_new) / (ra + rp_new),
              deltaV = Some ([Num 10, Num 12] ! 1),
              reEntry = Some (rp_new - EARTH_RADIUS_KM < RE_ENTRY_THRESHOLD_KM) \<rparr>)"
    and flag: "reEntry (trackPerigeeEvolution (Num 480) (Num 520) [Num 10, Num 12] ! (1 + 1)) =
        Some (perigeeAlt (trackPerigeeEvolution (Num 480) (Num 520) [Num 10, Num 12] ! (1 + 1))
                < Num 200)"
    by blast+
  have two: "(1::nat) + 1 = 2" by simp
  show ?thesis
    using len flag unfolding step [unfolded two] two Let_def
    by (simp add: EARTH_RADIUS_KM_def)
qed

subsection \<open>Monotonicity of the perigee\<close>

lemma apogee_burn_Num:
  fixes ra a d :: real
  defines "va \<equiv> sqrt (398600.4418 * (2 / ra - 1 / a))"
  defines "D \<equiv> 2 / ra - (va - d / 1000) * (va - d / 1000) / 398600.4418"
  assumes "ra \<noteq> 0" and "a \<noteq> 0" and "0 \<le> 2 / ra - 1 / a" and "D \<noteq> 0"
  shows "Num 1 / (Num 2 / Num ra -
             (Math_sqrt (MU_EARTH * (Num 2 / Num ra - Num 1 / Num a)) - Num d / Num 1000) *
             (Math_sqrt (MU_EARTH * (Num 2 / Num ra - Num 1 / Num a)) - Num d / Num 1000) /
             MU_EARTH) = Num (1 / D)"
proof -
  have nn: "\<not> 398600.4418 * (2 / ra - 1 / a) < 0"
    using assms(5) by (simp add: not_less)
  have sq: "Math_sqrt (MU_EARTH * (Num 2 / Num ra - Num 1 / Num a)) = Num va"
    using assms(3,4) nn unfolding MU_EARTH_def va_def by simp
  have den: "Num 2 / Num ra - (Num va - Num d / Num 1000) * (Num va - Num d / Num 1000) / MU_EARTH
      = Num D"
    using assms(3) unfolding MU_EARTH_def D_def by simp
  show ?thesis unfolding sq den using assms(6) by simp
qed

lemma apogee_burn_bounds:
  fixes ra a d mu :: real
  defines "va \<equiv> sqrt (mu * (2 / ra - 1 / a))"
  defines "D \<equiv> 2 / ra - (va - d / 1000) * (va - d / 1000) / mu"
  assumes "0 < mu" and "0 < ra" and "0 < a" and "ra \<le> 2 * a" and "0 \<le> d"
      and "d / 1000 \<le> 2 * va"
  shows "0 \<le> 2 / ra - 1 / a" and "1 / a \<le> D" and "D \<le> 2 / ra"
proof -
  show e: "0 \<le> 2 / ra - 1 / a"
    using assms(4-6) by (simp add: field_simps)
  then have c: "0 \<le> mu * (2 / ra - 1 / a)" using assms(3) by simp
  have va0: "0 \<le> va" unfolding va_def using c by simp
  have va2: "va * va = mu * (2 / ra - 1 / a)"
    unfolding va_def using c by simp
  have "\<bar>va - d / 1000\<bar> \<le> va" using assms(7,8) va0 by (simp add: abs_le_iff)
  then have "\<bar>va - d / 1000\<bar> * \<bar>va - d / 1000\<bar> \<le> va * va"
    by (intro mult_mono) simp_all
  then have "(va - d / 1000) * (va - d / 1000) \<le> (2 / ra - 1 / a) * mu"
    by (simp add: va2 mult.commute)
  then have "(va - d / 1000) * (va - d / 1000) / mu \<le> 2 / ra - 1 / a"
    using assms(3) by (simp only: pos_divide_le_eq)
  then show "1 / a \<le> D" unfolding D_def by linarith
  have "0 \<le> (va - d / 1000) * (va - d / 1000) / mu" using assms(3) by simp
  then show "D \<le> 2 / ra" unfolding D_def by linarith
qed

lemma apogee_burn_step:
  fixes ra a d :: real
  assumes "0 < ra" and "0 < a" and "ra \<le> 2 * a" and "0 < d"
      and "Num d / Num 1000 \<le>
           Num 2 * Math_sqrt (MU_EARTH * (Num 2 / Num ra - Num 1 / Num a))"
  shows "\<exists>a'. Num 1 / (Num 2 / Num ra -
             (Math_sqrt (MU_EARTH * (Num 2 / Num ra - Num 1 / Num a)) - Num d / Num 1000) *
             (Math_sqrt (MU_EARTH * (Num 2 / Num ra - Num 1 / Num a)) - Num d / Num 1000) /
             MU_EARTH) = Num a' \<and> 0 < a' \<and> a' \<le> a \<and> ra \<le> 2 * a'"
proof -
  define va where "va = sqrt (398600.4418 * (2 / ra - 1 / a))"
  define D where "D = 2 / ra - (va - d / 1000) * (va - d / 1000) / 398600.4418"
  have e: "0 \<le> 2 / ra - 1 / a"
    using assms(1-3) by (simp add: field_simps)
  then have nn: "\<not> 398600.4418 * (2 / ra - 1 / a) < 0" by (simp add: not_less)
  have sq: "Math_sqrt (MU_EARTH * (Num 2 / Num ra - Num 1 / Num a)) = Num va"
    using assms(1,2) nn unfolding MU_EARTH_def va_def by simp
  have b: "d / 1000 \<le> 2 * va" using assms(5) unfolding sq by simp
  have mu: "(0::real) < 398600.4418" by simp
  have d0: "0 \<le> d" using assms(4) by simp
  note bnd = apogee_burn_bounds [OF mu assms(1-3) d0 b [unfolded va_def],
      folded va_def, folded D_def]
  have "0 < 1 / a" using assms(2) by simp
  with bnd(2) have Dpos: "0 < D" by linarith
  have eq: "Num 1 / (Num 2 / Num ra -
             (Math_sqrt (MU_EARTH * (Num 2 / Num ra - Num 1 / Num a)) - Num d / Num 1000) *
             (Math_sqrt (MU_EARTH * (Num 2 / Num ra - Num 1 / Num a)) - Num d / Num 1000) /
             MU_EARTH) = Num (1 / D)"
    using apogee_burn_Num [of ra a d] assms(1,2) e Dpos
    unfolding va_def D_def by simp
  have p1: "0 < 1 / D" using Dpos by simp
  have p2: "1 / D \<le> a"
    using bnd(2) Dpos assms(2) by (simp add: field_simps)
  have p3: "ra \<le> 2 * (1 / D)"
    using bnd(3) Dpos assms(1) by (simp add: field_simps)
  from eq p1 p2 p3 show ?thesis by blast
qed

lemma forEachDeltaV_monotone:
  fixes ra a :: real
  assumes "0 < ra" and "0 < a" and "ra \<le> 2 * a"
      and "semiMajorAxis e0 = Num a" and "perigeeAlt e0 = Num (2 * a - ra - 6371)"
      and "\<forall>i<length dvs. \<exists>d. dvs ! i = Num d \<and> 0 < d \<and>
             Num d / Num 1000 \<le> Num 2 * Math_sqrt (MU_EARTH * (Num 2 / Num ra - Num 1 /
               semiMajorAxis ((e0 # forEachDeltaV (Num ra) (Num a, rp, e) idx dvs) ! i)))"
  shows "\<forall>i<length dvs.
           perigeeAlt ((e0 # forEachDeltaV (Num ra) (Num a, rp, e) idx dvs) ! Suc i) \<le>
           perigeeAlt ((e0 # forEachDeltaV (Num ra) (Num a, rp, e) idx dvs) ! i)"
  using assms
proof (induction dvs arbitrary: a e0 rp e idx)
  case Nil
  show ?case by simp
next
  case (Cons dv dvs)
  have "0 < length (dv # dvs)" by simp
  with Cons.prems(6) have "\<exists>d. (dv # dvs) ! 0 = Num d \<and> 0 < d \<and>
             Num d / Num 1000 \<le> Num 2 * Math_sqrt (MU_EARTH * (Num 2 / Num ra - Num 1 /
               semiMajorAxis ((e0 # forEachDeltaV (Num ra) (Num a, rp, e) idx (dv # dvs)) ! 0)))"
    by blast
  then obtain d where dv: "dv = Num d" and dpos: "0 < d"
    and b: "Num d / Num 1000 \<le>
            Num 2 * Math_sqrt (MU_EARTH * (Num 2 / Num ra - Num 1 / Num a))"
    using Cons.prems(4) by auto
  obtain a' where eq: "Num 1 / (Num 2 / Num ra -
             (Math_sqrt (MU_EARTH * (Num 2 / Num ra - Num 1 / Num a)) - Num d / Num 1000) *
             (Math_sqrt (MU_EARTH * (Num 2 / Num ra - Num 1 / Num a)) - Num d / Num 1000) /
             MU_EARTH) = Num a'" and a'pos: "0 < a'" and a'le: "a' \<le> a" and a'ge: "ra \<le> 2 * a'"
    using apogee_burn_step [OF Cons.prems(1-3) dpos b] by blast
  define rp1 where "rp1 = Num 2 * Num a' - Num ra"
  define e1 where "e1 =
     \<lparr> passNumber = idx + 1,
       perigeeAlt = rp1 - EARTH_RADIUS_KM,
       apogeeAlt = Num ra - EARTH_RADIUS_KM,
       semiMajorAxis = Num a',
       eccentricity = (Num ra - rp1) / (Num ra + rp1),
       deltaV = Some (Num d),
       reEntry = Some ((rp1 - EARTH_RADIUS_KM) < RE_ENTRY_THRESHOLD_KM) \<rparr>"
  have unf: "forEachDeltaV (Num ra) (Num a, rp, e) idx (dv # dvs) =
      e1 # forEachDeltaV (Num ra) (Num a', rp1, (Num ra - rp1) / (Num ra + rp1)) (idx + 1) dvs"
    unfolding forEachDeltaV.simps Let_def dv eq e1_def rp1_def ..
  have s1: "semiMajorAxis e1 = Num a'" by (simp add: e1_def)
  have p1: "perigeeAlt e1 = Num (2 * a' - ra - 6371)"
    by (simp add: e1_def rp1_def EARTH_RADIUS_KM_def)
  have hyp: "\<forall>i<length dvs. \<exists>d. dvs ! i = Num d \<and> 0 < d \<and>
             Num d / Num 1000 \<le> Num 2 * Math_sqrt (MU_EARTH * (Num 2 / Num ra - Num 1 /
               semiMajorAxis ((e1 # forEachDeltaV (Num ra)
                 (Num a', rp1, (Num ra - rp1) / (Num ra + rp1)) (idx + 1) dvs) ! i)))"
  proof (intro allI impI)
    fix i assume "i < length dvs"
    then have "Suc i < length (dv # dvs)" by simp
    with Cons.prems(6) show "\<exists>d. dvs ! i = Num d \<and> 0 < d \<and>
             Num d / Num 1000 \<le> Num 2 * Math_sqrt (MU_EARTH * (Num 2 / Num ra - Num 1 /
               semiMajorAxis ((e1 # forEachDeltaV (Num ra)
                 (Num a', rp1, (Num ra - rp1) / (Num ra + rp1)) (idx + 1) dvs) ! i)))"
      unfolding unf by fastforce
  qed
  note IH = Cons.IH [OF Cons.prems(1) a'pos a'ge s1 p1 hyp]
  show ?case
  proof (intro allI impI)
    fix i assume i: "i < length (dv # dvs)"
    show "perigeeAlt ((e0 # forEachDeltaV (Num ra) (Num a, rp, e) idx (dv # dvs)) ! Suc i) \<le>
          perigeeAlt ((e0 # forEachDeltaV (Num ra) (Num a, rp, e) idx (dv # dvs)) ! i)"
    proof (cases i)
      case 0
      then show ?thesis
        unfolding unf using a'le by (simp add: p1 Cons.prems(5))
    next
      case (Suc j)
      with i have "j < length dvs" by simp
      with IH show ?thesis unfolding unf Suc by simp
    qed
  qed
qed

text \<open>
  Claim C5, as the code has it. In exact real arithmetic, for an initial orbit with
  non-negative perigee radius and positive apogee radius, and a sequence of finite,
  positive delta-V values each of which is at most twice the apogee velocity of the
  orbit it is applied to (\<open>dv / 1000 \<le> 2 v\<^sub>a\<^sub>p\<^sub>o\<^sub>g\<^sub>e\<^sub>e\<close>), the perigee altitude reported does
  not increase from one pass to the next. The doubles of the program follow the
  recurrence up to rounding, which can exceed the decrease when a delta-V is tiny.
\<close>

theorem trackPerigeeEvolution_perigee_non_increasing:
  assumes "0 \<le> p + 6371" and "0 < q + 6371"
      and "\<forall>i<length dvs. \<exists>d. dvs ! i = Num d \<and> 0 < d \<and>
             Num d / Num 1000 \<le>
             Num 2 * Math_sqrt (MU_EARTH * (Num 2 / (Num q + EARTH_RADIUS_KM) - Num 1 /
               semiMajorAxis (trackPerigeeEvolution (Num p) (Num q) dvs ! i)))"
  shows "\<forall>i<length dvs.
           perigeeAlt (trackPerigeeEvolution (Num p) (Num q) dvs ! (i + 1)) \<le>
           perigeeAlt (trackPerigeeEvolution (Num p) (Num q) dvs ! i)"
proof -
  define ra where "ra = q + 6371"
  define a where "a = (p + q) / 2 + 6371"
  have ra: "Num q + EARTH_RADIUS_KM = Num ra" by (simp add: ra_def EARTH_RADIUS_KM_def)
  have a: "(Num p + Num q) / Num 2 + EARTH_RADIUS_KM = Num a"
    by (simp add: a_def EARTH_RADIUS_KM_def)
  have i1: "0 < ra" using assms(2) by (simp add: ra_def)
  have i2: "0 < a" using assms(1,2) unfolding a_def by argo
  have i3: "ra \<le> 2 * a" using assms(1) unfolding ra_def a_def by argo
  have "p = 2 * a - ra - 6371" unfolding ra_def a_def by argo
  then have p: "Num p = Num (2 * a - ra - 6371)" by simp
  show ?thesis
    using forEachDeltaV_monotone [OF i1 i2 i3, where dvs = dvs and idx = 0
        and rp = "Num p + EARTH_RADIUS_KM"
        and e = "(Num ra - (Num p + EARTH_RADIUS_KM)) / (Num ra + (Num p + EARTH_RADIUS_KM))"
        and ?e0.0 = "\<lparr> passNumber = 0, perigeeAlt = Num p, apogeeAlt = Num q,
           semiMajorAxis = Num a,
           eccentricity = (Num ra - (Num p + EARTH_RADIUS_KM)) / (Num ra + (Num p + EARTH_RADIUS_KM)),
           deltaV = None, reEntry = None \<rparr>"]
      assms(3) p
    unfolding trackPerigeeEvolution_def Let_def ra a
    by simp
qed

lemma apogee_velocity_480_520:
  "Math_sqrt (MU_EARTH * (Num 2 / (Num 520 + EARTH_RADIUS_KM) - Num 1 /
      semiMajorAxis (trackPerigeeEvolution (Num 480) (Num 520) dvs ! 0))) =
   Num (sqrt (398600.4418 * (2 / 6891 - 1 / 6871)))"
  by (simp add: trackPerigeeEvolution_def Let_def EARTH_RADIUS_KM_def MU_EARTH_def)

lemma apogee_velocity_bounds:
  "7 < sqrt (398600.4418 * (2 / 6891 - 1 / 6871))"
  "sqrt (398600.4418 * (2 / 6891 - 1 / 6871)) < 8"
proof -
  have "(7::real)\<^sup>2 < 398600.4418 * (2 / 6891 - 1 / 6871)" by simp
  then show "7 < sqrt (398600.4418 * (2 / 6891 - 1 / 6871))"
    by (rule real_less_rsqrt)
  have "398600.4418 * (2 / 6891 - 1 / 6871) < (8::real)\<^sup>2" by simp
  then show "sqrt (398600.4418 * (2 / 6891 - 1 / 6871)) < 8"
    by (intro real_less_lsqrt) simp_all
qed

text \<open>
  Two passes of 10 and 12 m/s on the 480 by 520 km orbit: the bound holds at the initial
  orbit and at the orbit computed by the first pass.
\<close>

theorem trackPerigeeEvolution_perigee_non_increasing_witness:
  "perigeeAlt (trackPerigeeEvolution (Num 480) (Num 520) [Num 10, Num 12] ! 1) \<le>
   perigeeAlt (trackPerigeeEvolution (Num 480) (Num 520) [Num 10, Num 12] ! 0) \<and>
   perigeeAlt (trackPerigeeEvolution (Num 480) (Num 520) [Num 10, Num 12] ! 2) \<le>
   perigeeAlt (trackPerigeeEvolution (Num 480) (Num 520) [Num 10, Num 12] ! 1)"
proof -
  let ?ev = "trackPerigeeEvolution (Num 480) (Num 520) [Num 10, Num 12]"
  define va :: real where "va = sqrt (398600.4418 * (2 / 6891 - 1 / 6871))"
  define w :: real where "w = (va - 10 / 1000) * (va - 10 / 1000)"
  define D :: real where "D = 2 / 6891 - w / 398600.4418"
  have va: "7 < va" "va < 8" using apogee_velocity_bounds by (simp_all add: va_def)
  have wlo: "6 * 6 \<le> w" unfolding w_def using va by (intro mult_mono) simp_all
  have whi: "w < 8 * 8" unfolding w_def using va by (intro mult_strict_mono) simp_all
  have "2 / 6891 - 64 / 398600.4418 < D"
    unfolding D_def using whi by (simp add: field_simps)
  then have Dpos: "0 < D" by simp
  have a1: "Num 1 / (Num 2 / Num 6891 -
             (Math_sqrt (MU_EARTH * (Num 2 / Num 6891 - Num 1 / Num 6871)) - Num 10 / Num 1000) *
             (Math_sqrt (MU_EARTH * (Num 2 / Num 6891 - Num 1 / Num 6871)) - Num 10 / Num 1000) /
             MU_EARTH) = Num (1 / D)"
    using apogee_burn_Num [of 6891 6871 10] Dpos unfolding D_def w_def va_def by simp
  have ra: "Num 520 + EARTH_RADIUS_KM = Num 6891" by (simp add: EARTH_RADIUS_KM_def)
  have a0: "(Num 480 + Num 520) / Num 2 + EARTH_RADIUS_KM = Num 6871"
    by (simp add: EARTH_RADIUS_KM_def)
  have s0: "semiMajorAxis (?ev ! 0) = Num 6871"
    unfolding trackPerigeeEvolution_def Let_def ra a0 by simp
  have s1: "semiMajorAxis (?ev ! 1) = Num (1 / D)"
    unfolding trackPerigeeEvolution_def Let_def ra a0 forEachDeltaV.simps a1 by simp
  have v0: "Math_sqrt (MU_EARTH * (Num 2 / Num 6891 - Num 1 / Num 6871)) = Num va"
    unfolding va_def MU_EARTH_def by simp
  have "398600.4418 * (2 / 6891 - D) = w" unfolding D_def by simp
  then have v1r: "sqrt (398600.4418 * (2 / 6891 - D)) = sqrt w" by simp
  have wnn: "\<not> 398600.4418 * (2 / 6891 - D) < 0"
    using wlo \<open>398600.4418 * (2 / 6891 - D) = w\<close> by simp
  have inv: "Num 1 / Num (1 / D) = Num D" using Dpos by simp
  have v1: "Math_sqrt (MU_EARTH * (Num 2 / Num 6891 - Num 1 / Num (1 / D))) = Num (sqrt w)"
    unfolding inv MU_EARTH_def using wnn v1r by simp
  have "6\<^sup>2 \<le> w" using wlo by (simp add: power2_eq_square)
  then have sw: "6 \<le> sqrt w" by (rule real_le_rsqrt)
  have h0: "Num 10 / Num 1000 \<le> Num 2 * Math_sqrt (MU_EARTH *
      (Num 2 / (Num 520 + EARTH_RADIUS_KM) - Num 1 / semiMajorAxis (?ev ! 0)))"
    unfolding ra s0 v0 using va by simp
  have h1: "Num 12 / Num 1000 \<le> Num 2 * Math_sqrt (MU_EARTH *
      (Num 2 / (Num 520 + EARTH_RADIUS_KM) - Num 1 / semiMajorAxis (?ev ! 1)))"
    unfolding ra s1 v1 using sw by simp
  have hyp: "\<forall>i<length [Num 10, Num 12]. \<exists>d. [Num 10, Num 12] ! i = Num d \<and> 0 < d \<and>
             Num d / Num 1000 \<le>
             Num 2 * Math_sqrt (MU_EARTH * (Num 2 / (Num 520 + EARTH_RADIUS_KM) - Num 1 /
               semiMajorAxis (?ev ! i)))"
  proof (intro allI impI)
    fix i assume "i < length [Num 10, Num 12]"
    then consider "i = 0" | "i = 1" by fastforce
    then show "\<exists>d. [Num 10, Num 12] ! i = Num d \<and> 0 < d \<and>
             Num d / Num 1000 \<le>
             Num 2 * Math_sqrt (MU_EARTH * (Num 2 / (Num 520 + EARTH_RADIUS_KM) - Num 1 /
               semiMajorAxis (?ev ! i)))"
    proof cases
      case 1
      with h0 show ?thesis by (intro exI [of _ 10]) simp
    next
      case 2
      with h1 show ?thesis by (intro exI [of _ 12]) simp
    qed
  qed
  have all: "\<forall>i<length [Num 10, Num 12].
           perigeeAlt (?ev ! (i + 1)) \<le> perigeeAlt (?ev ! i)"
    by (rule trackPerigeeEvolution_perigee_non_increasing [OF _ _ hyp]) simp_all
  have l0: "(0::nat) < length [Num 10, Num 12 :: jsnum]"
    and l1: "(1::nat) < length [Num 10, Num 12 :: jsnum]" by simp_all
  from all [rule_format, OF l0] all [rule_format, OF l1]
  show ?thesis by (simp add: numeral_2_eq_2)
qed

text \<open>
  Without the bound the claim fails: a delta-V of 16000 m/s on the 480 by 520 km orbit
  reverses the velocity at apogee (about 7.6 km/s) to a larger magnitude, and the
  perigee reported for pass 1 is above the initial 480 km.
\<close>

theorem trackPerigeeEvolution_perigee_rises:
  "perigeeAlt (trackPerigeeEvolution (Num 480) (Num 520) [Num 16000] ! 0) = Num 480 \<and>
   Num 480 < perigeeAlt (trackPerigeeEvolution (Num 480) (Num 520) [Num 16000] ! 1) \<and>
   \<not> perigeeAlt (trackPerigeeEvolution (Num 480) (Num 520) [Num 16000] ! 1) \<le>
     perigeeAlt (trackPerigeeEvolution (Num 480) (Num 520) [Num 16000] ! 0)"
proof -
  define va :: real where "va = sqrt (398600.4418 * (2 / 6891 - 1 / 6871))"
  define D :: real where "D = 2 / 6891 - (va - 16000 / 1000) * (va - 16000 / 1000) / 398600.4418"
  have va: "7 < va" "va < 8" using apogee_velocity_bounds by (simp_all add: va_def)
  have va2: "va * va = 398600.4418 * (2 / 6891 - 1 / 6871)"
    unfolding va_def by simp
  have lo: "8 * 8 < (16 - va) * (16 - va)"
    using va by (intro mult_strict_mono) simp_all
  have hi: "(16 - va) * (16 - va) < 9 * 9"
    using va by (intro mult_strict_mono) simp_all
  have sq: "(va - 16000 / 1000) * (va - 16000 / 1000) = (16 - va) * (16 - va)"
    by (simp add: algebra_simps)
  have "D < 2 / 6891 - 64 / 398600.4418"
    unfolding D_def sq using lo by (simp add: field_simps)
  then have Dlt: "D < 1 / 6871" by simp
  have "2 / 6891 - 81 / 398600.4418 < D"
    unfolding D_def sq using hi by (simp add: field_simps)
  then have Dpos: "0 < D" by simp
  have a1: "Num 1 / (Num 2 / Num 6891 -
             (Math_sqrt (MU_EARTH * (Num 2 / Num 6891 - Num 1 / Num 6871)) - Num 16000 / Num 1000) *
             (Math_sqrt (MU_EARTH * (Num 2 / Num 6891 - Num 1 / Num 6871)) - Num 16000 / Num 1000) /
             MU_EARTH) = Num (1 / D)"
    using apogee_burn_Num [of 6891 6871 16000] Dpos unfolding D_def va_def by simp
  have ra: "Num 520 + EARTH_RADIUS_KM = Num 6891" by (simp add: EARTH_RADIUS_KM_def)
  have a0: "(Num 480 + Num 520) / Num 2 + EARTH_RADIUS_KM = Num 6871"
    by (simp add: EARTH_RADIUS_KM_def)
  have p1: "perigeeAlt (trackPerigeeEvolution (Num 480) (Num 520) [Num 16000] ! 1) =
      Num (2 * (1 / D) - 6891 - 6371)"
    unfolding trackPerigeeEvolution_def Let_def ra a0 forEachDeltaV.simps a1
    by (simp add: EARTH_RADIUS_KM_def)
  have p0: "perigeeAlt (trackPerigeeEvolution (Num 480) (Num 520) [Num 16000] ! 0) = Num 480"
    by (simp add: trackPerigeeEvolution_def Let_def)
  have "6871 < 1 / D" using Dpos Dlt by (simp add: field_simps)
  then have "480 < 2 * (1 / D) - 6891 - 6371" by simp
  then show ?thesis unfolding p0 p1 by simp
qed

section \<open>The visibility scanner\<close>

lemma scanLoop_run:
  "currentTime < endDate \<Longrightarrow>
   scanLoop tz look m endDate currentTime st =
     scanLoop tz look m endDate (setMinutesPlusOne tz currentTime) (scanStep look m currentTime st)"
  by (subst scanLoop.simps) simp

lemma scanLoop_stop:
  "\<not> currentTime < endDate \<Longrightarrow> scanLoop tz look m endDate currentTime st = Some (snd st)"
  by (subst scanLoop.simps) simp

lemma scanStep_quiet:
  "\<not> fst (look t) > m \<Longrightarrow> scanStep look m t (None, ps) = (None, ps)"
  by (simp add: scanStep_def case_prod_beta)

lemma scanStep_open:
  "fst (look t) > m \<Longrightarrow>
   scanStep look m t (None, ps) =
     (Some \<lparr> startTime = t, maxElevation = fst (look t), azimuthStart = snd (look t) \<rparr>, ps)"
  by (simp add: scanStep_def case_prod_beta)

lemma scanStep_close:
  "\<not> fst (look t) > m \<Longrightarrow>
   scanStep look m t (Some cp, ps) =
     (None,
      if Num (real_of_int (t - startTime cp) / 1000) > Num 30
      then ps @ [\<lparr> startTime = startTime cp, maxElevation = maxElevation cp,
                   azimuthStart = azimuthStart cp, endTime = t,
                   duration = Num (real_of_int (t - startTime cp) / 1000) \<rparr>]
      else ps)"
  by (simp add: scanStep_def Let_def case_prod_beta)





lemma scanLoop_quiet_from:
  "(\<forall>u\<ge>t. setMinutesPlusOne tz u = u + 60000) \<Longrightarrow>
   (\<forall>k::nat. \<not> fst (look (t + 60000 * int k)) > m) \<Longrightarrow>
   scanLoop tz look m e t (None, ps) = Some ps"
proof (induction "nat (e - t)" arbitrary: t rule: less_induct)
  case less
  show ?case
  proof (cases "t < e")
    case True
    from less.prems(2) have "\<not> fst (look (t + 60000 * int 0)) > m" by blast
    then have stp: "scanStep look m t (None, ps) = (None, ps)"
      by (simp add: scanStep_quiet)
    have q: "\<forall>k::nat. \<not> fst (look (t + 60000 + 60000 * int k)) > m"
    proof
      fix k :: nat
      from less.prems(2) have "\<not> fst (look (t + 60000 * int (Suc k))) > m" by blast
      then show "\<not> fst (look (t + 60000 + 60000 * int k)) > m"
        by (simp add: algebra_simps)
    qed
    have reg: "\<forall>u\<ge>t + 60000. setMinutesPlusOne tz u = u + 60000"
      using less.prems(1) by simp
    have here: "setMinutesPlusOne tz t = t + 60000" using less.prems(1) by simp
    have dec: "nat (e - (t + 60000)) < nat (e - t)" using True by simp
    from less.hyps [OF dec reg q]
    show ?thesis using True stp here by (simp add: scanLoop_run)
  next
    case False
    then show ?thesis by (simp add: scanLoop_stop)
  qed
qed












text \<open>
  Where the offset changes the samples are not 60 s apart. In the zone that leaves
  daylight-saving time at 90000 ms the sample after 60000 is taken 61 minutes later,
  the day scanned has 25 hours, and the crossing of 20 s is reported as a pass of
  3660 s.
\<close>

lemma fallBackZone_steps:
  "setMinutesPlusOne fallBackZone 0 = 60000"
  "setMinutesPlusOne fallBackZone 60000 = 3720000"
  "\<forall>u\<ge>3720000. setMinutesPlusOne fallBackZone u = u + 60000"
  "setDatePlus fallBackZone 0 1 = 90000000"
  by (simp_all add: setMinutesPlusOne_def setDatePlus_def fallBackZone_def)

lemma calculateVisibilityWindows_fall_back:
  "calculateVisibilityWindows fallBackZone crossing20s 0 1 (Num 20) =
     Some [\<lparr> startTime = 60000, maxElevation = Num 45, azimuthStart = Num 180,
        endTime = 3720000, duration = Num 3660 \<rparr>]"
proof -
  let ?p = "\<lparr> startTime = 60000, maxElevation = Num 45, azimuthStart = Num 180,
        endTime = 3720000, duration = Num 3660 \<rparr>"
  have c0: "\<not> fst (crossing20s 0) > Num 20" by (simp add: crossing20s_def)
  have c1: "fst (crossing20s 60000) > Num 20" "crossing20s 60000 = (Num 45, Num 180)"
    by (simp_all add: crossing20s_def)
  have c2: "\<not> fst (crossing20s 3720000) > Num 20" by (simp add: crossing20s_def)
  have 1: "scanLoop fallBackZone crossing20s (Num 20) 90000000 0 (None, []) =
           scanLoop fallBackZone crossing20s (Num 20) 90000000 60000 (None, [])"
    using c0 by (simp add: scanLoop_run scanStep_quiet fallBackZone_steps(1))
  have 2: "scanLoop fallBackZone crossing20s (Num 20) 90000000 60000 (None, []) =
           scanLoop fallBackZone crossing20s (Num 20) 90000000 3720000
             (Some \<lparr> startTime = 60000, maxElevation = Num 45, azimuthStart = Num 180 \<rparr>, [])"
    using c1 by (simp add: scanLoop_run scanStep_open fallBackZone_steps(2))
  have s3: "setMinutesPlusOne fallBackZone 3720000 = 3780000"
    using fallBackZone_steps(3) by simp
  have 3: "scanLoop fallBackZone crossing20s (Num 20) 90000000 3720000
             (Some \<lparr> startTime = 60000, maxElevation = Num 45, azimuthStart = Num 180 \<rparr>, []) =
           scanLoop fallBackZone crossing20s (Num 20) 90000000 3780000 (None, [?p])"
    using c2 by (simp add: scanLoop_run scanStep_close s3)
  have reg: "\<forall>u\<ge>3780000. setMinutesPlusOne fallBackZone u = u + 60000"
    using fallBackZone_steps(3) by simp
  have q: "\<forall>k::nat. \<not> fst (crossing20s (3780000 + 60000 * int k)) > Num 20"
    by (simp add: crossing20s_def)
  have 4: "scanLoop fallBackZone crossing20s (Num 20) 90000000 3780000 (None, [?p]) = Some [?p]"
    by (rule scanLoop_quiet_from [OF reg q])
  show ?thesis
    unfolding calculateVisibilityWindows_def Let_def fallBackZone_steps(4) 1 2 3 4 ..
qed

end
